theory Spec2Isabelle
  imports Main "HOL-Library.AList" "HOL-Library.Sublist"
begin

section \<open>The file system seen by \<open>piece.py\<close>\<close>

text \<open>
  \<open>sheet_manager/data_model/piece.py\<close> keeps no data of its own: a \<open>Piece\<close> is an index
  over a directory. The calls it makes are \<open>os.path.isdir\<close>, \<open>os.path.isfile\<close>,
  \<open>os.listdir\<close>, \<open>os.mkdir\<close>, \<open>shutil.rmtree\<close>, \<open>shutil.copyfile\<close>, \<open>os.path.join\<close> and
  \<open>os.path.splitext\<close>.

  A path is the list of its components, the root directory being \<open>[]\<close>; a component is a
  plain file name (not empty, without a separator, neither \<open>.\<close> nor \<open>..\<close>), so that
  \<open>os.path.join d n\<close> appends one component. The file system is a finite table from paths
  to nodes, a regular file with its content or a directory; the first entry of a path is
  the one that counts. Permissions, links and special files are outside the model.
\<close>

type_synonym path = "string list"

datatype node = File string | Dir

type_synonym filesystem = "(path \<times> node) list"

definition is_component :: "string \<Rightarrow> bool" where
  "is_component s = (s \<noteq> [] \<and> CHR ''/'' \<notin> set s \<and> s \<noteq> ''.'' \<and> s \<noteq> ''..'')"

definition join :: "path \<Rightarrow> string \<Rightarrow> path" where
  "join d n = d @ [n]"

definition isfile :: "filesystem \<Rightarrow> path \<Rightarrow> bool" where
  "isfile fs p = (case map_of fs p of Some (File c) \<Rightarrow> True | _ \<Rightarrow> False)"

definition isdir :: "filesystem \<Rightarrow> path \<Rightarrow> bool" where
  "isdir fs p = (case map_of fs p of Some Dir \<Rightarrow> True | _ \<Rightarrow> False)"

text \<open>
  The exceptions of the module, one constructor for each \<open>raise\<close> with the arguments its
  message is formatted from. \<open>OSError\<close> stands for the failure of a file system call.
\<close>

datatype error =
    CollectionRootMissing path
      \<comment> \<open>\<open>SheetManagerDBError('Collection root directory does not exist: {0}')\<close>\<close>
  | PieceMissing string path
      \<comment> \<open>\<open>SheetManagerDBError('Piece {0} in collection {1} does not exist')\<close>\<close>
  | AuthorityFormatNotSupported string
      \<comment> \<open>\<open>ValueError('Authority format not supported: {0}')\<close>\<close>
  | AuthorityEncodingMissing string path string "path list"
      \<comment> \<open>\<open>SheetManagerDBError\<close>: piece, root, requested format, \<open>self.encodings.values()\<close>\<close>
  | PerformanceMissing string path string "string list"
      \<comment> \<open>\<open>SheetManagerDBError\<close>: piece, root, performance, \<open>self.performances.keys()\<close>\<close>
  | PerformanceExists string string
      \<comment> \<open>\<open>SheetManagerDBError('Piece {0}: performance {1} already exists!')\<close>\<close>
  | PerformanceLoaderError
      \<comment> \<open>whatever the constructor of \<open>Performance\<close> raises\<close>
  | ValueErrorClosedFile
      \<comment> \<open>\<open>ValueError('I/O operation on closed file')\<close>\<close>
  | OSError
  | NotImplementedError

text \<open>\<open>os.listdir\<close>: the names of all entries of a directory, files and directories alike.\<close>

definition entries :: "filesystem \<Rightarrow> path \<Rightarrow> string list" where
  "entries fs d = remdups (map (last \<circ> fst) (filter (\<lambda>(q, n). q \<noteq> [] \<and> butlast q = d) fs))"

definition listdir :: "filesystem \<Rightarrow> path \<Rightarrow> error + string list" where
  "listdir fs d = (if isdir fs d then Inr (entries fs d) else Inl OSError)"

text \<open>\<open>os.mkdir\<close> fails when the path exists or its parent is not a directory.\<close>

definition mkdir :: "filesystem \<Rightarrow> path \<Rightarrow> error + filesystem" where
  "mkdir fs p =
     (if p = [] \<or> map_of fs p \<noteq> None then Inl OSError
      else if \<not> isdir fs (butlast p) then Inl OSError
      else Inr (fs @ [(p, Dir)]))"

text \<open>\<open>shutil.rmtree\<close> fails on anything but a directory and removes it with all below it.\<close>

definition rmtree :: "filesystem \<Rightarrow> path \<Rightarrow> error + filesystem" where
  "rmtree fs p =
     (if \<not> isdir fs p then Inl OSError
      else Inr (filter (\<lambda>(q, n). \<not> prefix p q) fs))"

text \<open>
  \<open>shutil.copyfile src dst\<close> opens \<open>src\<close> for reading and \<open>dst\<close> for writing: \<open>src\<close> must be a
  regular file, \<open>dst\<close> must not be a directory and must lie in a directory, and the two must
  differ. An existing file \<open>dst\<close> is overwritten.
\<close>

definition copyfile :: "filesystem \<Rightarrow> path \<Rightarrow> path \<Rightarrow> error + filesystem" where
  "copyfile fs src dst =
     (case map_of fs src of
        Some (File c) \<Rightarrow>
          (if src = dst then Inl OSError
           else if dst = [] \<or> isdir fs dst \<or> \<not> isdir fs (butlast dst) then Inl OSError
           else Inr (AList.update dst (File c) fs))
      | _ \<Rightarrow> Inl OSError)"

text \<open>
  \<open>os.path.splitext(p)[-1]\<close>: the extension starts at the last dot of the last component,
  unless only dots precede it there. The function is applied to the last component.
\<close>

definition splitext_ext :: "string \<Rightarrow> string" where
  "splitext_ext b =
     (let stem = dropWhile (\<lambda>c. c \<noteq> CHR ''.'') (rev b)
      in if stem = [] \<or> (\<forall>c \<in> set (tl stem). c = CHR ''.'') then []
         else CHR ''.'' # rev (takeWhile (\<lambda>c. c \<noteq> CHR ''.'') (rev b)))"

definition path_ext :: "path \<Rightarrow> string" where
  "path_ext p = (if p = [] then [] else splitext_ext (last p))"

section \<open>The process state\<close>

text \<open>
  Besides the files, the module writes warnings to the log and opens \<open>meta.yml\<close>. A file
  handle is a number; the table of handles gives the content a handle reads and whether it
  is still open.
\<close>

datatype warning =
    NoMetadataFile string string
      \<comment> \<open>\<open>'Piece {0} has no metadata file: {1}'\<close>\<close>
  | RemoveMissingPerformance string string
      \<comment> \<open>\<open>'Piece {0}: trying to remove performance {1}, but it does not exist!'\<close>\<close>
  | OverwritingPerformance string string
      \<comment> \<open>\<open>'Piece {0}: performance {1} already exists, overwriting!'\<close>\<close>

record world =
  files :: filesystem
  warnings :: "warning list"
  handles :: "(string \<times> bool) list"

text \<open>
  \<open>yaml.load_all(hdl)\<close> is a generator: the call reads nothing and returns an object that
  reads from \<open>hdl\<close> when it is first iterated. The value of \<open>metadata\<close> is therefore either
  the empty \<open>dict()\<close> or such a generator.
\<close>

datatype metadata = EmptyDict | YamlLoadAll nat

section \<open>The class \<open>Piece\<close>\<close>

record piece =
  name :: string
  folder :: path
  collection_root :: path
  performance_dir :: path
  score_dir :: path
  metadata :: metadata
  encodings :: "(string \<times> path) list"
  authority_format :: string
  authority :: path
  performances :: "(string \<times> path) list"
  scores :: "(string \<times> path) list"

text \<open>
  A \<open>dict\<close> is an association list in insertion order, read with \<open>map_of\<close>; \<open>keys()\<close> and
  \<open>values()\<close> are \<open>map fst\<close> and \<open>map snd\<close>.
\<close>

definition DEFAULT_META_FNAME :: string where
  "DEFAULT_META_FNAME = ''meta.yml''"

definition AVAILABLE_AUTHORITIES :: "string list" where
  "AVAILABLE_AUTHORITIES = [''mxml'', ''ly'', ''midi'', ''mei'']"

definition collect_encodings :: "piece \<Rightarrow> filesystem \<Rightarrow> (string \<times> path) list" where
  "collect_encodings self fs =
     (let encodings0 = [];
          mxml = join (folder self) (name self @ ''.xml'');
          encodings1 = (if isfile fs mxml then AList.update ''mxml'' mxml encodings0
                        else encodings0);
          ly = join (folder self) (name self @ ''.ly'');
          encodings2 = (if isfile fs ly then AList.update ''ly'' ly encodings1
                        else encodings1);
          midi0 = join (folder self) (name self @ ''.mid'');
          midi = (if \<not> isfile fs midi0 then join (folder self) (name self @ ''.mid'' @ ''i'')
                  else midi0);
          encodings3 = (if isfile fs midi then AList.update ''midi'' midi encodings2
                        else encodings2);
          mei = join (folder self) (name self @ ''.mei'');
          encodings4 = (if isfile fs mei then AList.update ''mei'' mei encodings3
                        else encodings3)
      in encodings4)"

text \<open>\<open>Piece._set_authority\<close>: both checks come before the two assignments.\<close>

definition set_authority :: "string \<Rightarrow> piece \<Rightarrow> (error + unit) \<times> piece" where
  "set_authority fmt self =
     (if fmt \<notin> set AVAILABLE_AUTHORITIES then (Inl (AuthorityFormatNotSupported fmt), self)
      else case map_of (encodings self) fmt of
        None \<Rightarrow>
          (Inl (AuthorityEncodingMissing (name self) (collection_root self) fmt
                  (map snd (encodings self))), self)
      | Some a \<Rightarrow> (Inr (), self\<lparr>authority_format := fmt, authority := a\<rparr>))"

text \<open>
  \<open>Piece._ensure_piece_structure\<close>. When the first \<open>os.mkdir\<close> succeeds and the second
  fails, the first directory stays: the files are returned in either case.
\<close>

definition ensure_piece_structure :: "piece \<Rightarrow> filesystem \<Rightarrow> (error + unit) \<times> filesystem" where
  "ensure_piece_structure self fs =
     (case (if \<not> isdir fs (performance_dir self) then mkdir fs (performance_dir self)
            else Inr fs) of
        Inl e \<Rightarrow> (Inl e, fs)
      | Inr fs1 \<Rightarrow>
          (case (if \<not> isdir fs1 (score_dir self) then mkdir fs1 (score_dir self)
                 else Inr fs1) of
             Inl e \<Rightarrow> (Inl e, fs1)
           | Inr fs2 \<Rightarrow> (Inr (), fs2)))"

definition collect_performances :: "piece \<Rightarrow> filesystem \<Rightarrow> error + (string \<times> path) list" where
  "collect_performances self fs =
     (case listdir fs (performance_dir self) of
        Inl e \<Rightarrow> Inl e
      | Inr ps \<Rightarrow> Inr (map (\<lambda>p. (p, join (performance_dir self) p)) ps))"

definition collect_scores :: "piece \<Rightarrow> filesystem \<Rightarrow> error + (string \<times> path) list" where
  "collect_scores self fs =
     (case listdir fs (score_dir self) of
        Inl e \<Rightarrow> Inl e
      | Inr ss \<Rightarrow> Inr (map (\<lambda>s. (s, join (score_dir self) s)) ss))"

text \<open>
  \<open>Piece.update\<close>. An exception leaves the object as the statements before it made it, and
  the caller that catches it goes on with that object: the result carries the piece and the
  world in either case.
\<close>

definition update :: "piece \<Rightarrow> world \<Rightarrow> (error + unit) \<times> piece \<times> world" where
  "update self w =
     (let self1 = self\<lparr>encodings := collect_encodings self (files w)\<rparr> in
      case set_authority (authority_format self1) self1 of
        (Inl e, self2) \<Rightarrow> (Inl e, self2, w)
      | (Inr u, self2) \<Rightarrow>
          (case ensure_piece_structure self2 (files w) of
             (Inl e, fs1) \<Rightarrow> (Inl e, self2, w\<lparr>files := fs1\<rparr>)
           | (Inr u', fs1) \<Rightarrow>
               (let w1 = w\<lparr>files := fs1\<rparr> in
                case collect_performances self2 fs1 of
                  Inl e \<Rightarrow> (Inl e, self2, w1)
                | Inr ps \<Rightarrow>
                    (let self3 = self2\<lparr>performances := ps\<rparr> in
                     case collect_scores self3 fs1 of
                       Inl e \<Rightarrow> (Inl e, self3, w1)
                     | Inr ss \<Rightarrow> (Inr (), self3\<lparr>scores := ss\<rparr>, w1)))))"

text \<open>
  \<open>Piece.load_metadata\<close>. The \<open>with\<close> block closes the file when it is left, and the
  value returned is the generator that \<open>yaml.load_all\<close> made inside the block.
\<close>

definition open_file :: "path \<Rightarrow> world \<Rightarrow> (error + nat) \<times> world" where
  "open_file p w =
     (case map_of (files w) p of
        Some (File c) \<Rightarrow> (Inr (length (handles w)), w\<lparr>handles := handles w @ [(c, True)]\<rparr>)
      | _ \<Rightarrow> (Inl OSError, w))"

definition close_file :: "nat \<Rightarrow> world \<Rightarrow> world" where
  "close_file h w = w\<lparr>handles := (handles w)[h := (fst (handles w ! h), False)]\<rparr>"

definition yaml_load_all :: "nat \<Rightarrow> metadata" where
  "yaml_load_all hdl = YamlLoadAll hdl"

definition load_metadata :: "piece \<Rightarrow> world \<Rightarrow> (error + metadata) \<times> world" where
  "load_metadata self w =
     (let metafile = join (folder self) DEFAULT_META_FNAME in
      if \<not> isfile (files w) metafile
      then (Inr EmptyDict,
            w\<lparr>warnings := warnings w @ [NoMetadataFile (name self) DEFAULT_META_FNAME]\<rparr>)
      else case open_file metafile w of
             (Inl e, w1) \<Rightarrow> (Inl e, w1)
           | (Inr hdl, w1) \<Rightarrow>
               (let metadata = yaml_load_all hdl;
                    w2 = close_file hdl w1
                in (Inr metadata, w2)))"

text \<open>
  What the caller of \<open>load_metadata\<close> gets when it iterates the value: the documents of
  the file, parsed by \<open>parse\<close> (the YAML parser, a parameter), provided the handle can
  still be read. Reading a closed file raises \<open>ValueError\<close>.
\<close>

definition read_handle :: "nat \<Rightarrow> world \<Rightarrow> error + string" where
  "read_handle h w =
     (if h < length (handles w)
      then (case handles w ! h of
              (c, True) \<Rightarrow> Inr c
            | (c, False) \<Rightarrow> Inl ValueErrorClosedFile)
      else Inl ValueErrorClosedFile)"

definition iterate_metadata :: "(string \<Rightarrow> error + 'd list) \<Rightarrow> metadata \<Rightarrow> world \<Rightarrow> error + 'd list" where
  "iterate_metadata parse m w =
     (case m of
        EmptyDict \<Rightarrow> Inr []
      | YamlLoadAll h \<Rightarrow>
          (case read_handle h w of
             Inl e \<Rightarrow> Inl e
           | Inr c \<Rightarrow> parse c))"

text \<open>
  \<open>Piece.__init__\<close>. The object under construction starts with its path attributes; the
  attributes assigned later hold empty values until then, which nothing reads. When
  the constructor raises there is no object.
\<close>

definition Piece_init :: "string \<Rightarrow> path \<Rightarrow> string \<Rightarrow> world \<Rightarrow> (error + piece) \<times> world" where
  "Piece_init nm root fmt w =
     (if \<not> isdir (files w) root then (Inl (CollectionRootMissing root), w)
      else let piece_folder = join root nm in
      if \<not> isdir (files w) piece_folder then (Inl (PieceMissing nm root), w)
      else if fmt \<notin> set AVAILABLE_AUTHORITIES then (Inl (AuthorityFormatNotSupported fmt), w)
      else
        let self0 = \<lparr>name = nm, folder = piece_folder, collection_root = root,
                      performance_dir = join piece_folder ''performances'',
                      score_dir = join piece_folder ''scores'',
                      metadata = EmptyDict, encodings = [], authority_format = [],
                      authority = [], performances = [], scores = []\<rparr> in
        case ensure_piece_structure self0 (files w) of
          (Inl e, fs1) \<Rightarrow> (Inl e, w\<lparr>files := fs1\<rparr>)
        | (Inr u, fs1) \<Rightarrow>
            (case load_metadata self0 (w\<lparr>files := fs1\<rparr>) of
               (Inl e, w2) \<Rightarrow> (Inl e, w2)
             | (Inr md, w2) \<Rightarrow>
                 (let self1 = self0\<lparr>metadata := md\<rparr>;
                      self2 = self1\<lparr>encodings := collect_encodings self1 (files w2)\<rparr> in
                  case map_of (encodings self2) fmt of
                    None \<Rightarrow>
                      (Inl (AuthorityEncodingMissing (name self2) root fmt
                              (map snd (encodings self2))), w2)
                  | Some a \<Rightarrow>
                      (let self3 = self2\<lparr>authority_format := fmt, authority := a\<rparr> in
                       case collect_performances self3 (files w2) of
                         Inl e \<Rightarrow> (Inl e, w2)
                       | Inr ps \<Rightarrow>
                           (let self4 = self3\<lparr>performances := ps\<rparr> in
                            case collect_scores self4 (files w2) of
                              Inl e \<Rightarrow> (Inl e, w2)
                            | Inr ss \<Rightarrow> (Inr (self4\<lparr>scores := ss\<rparr>), w2))))))"

text \<open>
  The constructor of \<open>Performance\<close> (module \<open>sheet_manager.data_model.performance\<close>) is a
  parameter \<open>mk\<close> of the methods that call it: given the files, the directory of the
  performance and the name of the piece, it returns a handle or raises.
\<close>

definition load_performance ::
  "(filesystem \<Rightarrow> path \<Rightarrow> string \<Rightarrow> error + 'h) \<Rightarrow> string \<Rightarrow> piece \<Rightarrow> world
     \<Rightarrow> (error + 'h) \<times> piece \<times> world" where
  "load_performance mk performance_name self w =
     (case update self w of
        (Inl e, self1, w1) \<Rightarrow> (Inl e, self1, w1)
      | (Inr u, self1, w1) \<Rightarrow>
          (case map_of (performances self1) performance_name of
             None \<Rightarrow>
               (Inl (PerformanceMissing (name self1) (collection_root self1) performance_name
                       (map fst (performances self1))), self1, w1)
           | Some performance_dir' \<Rightarrow>
               (case mk (files w1) performance_dir' (name self1) of
                  Inl e \<Rightarrow> (Inl e, self1, w1)
                | Inr performance \<Rightarrow> (Inr performance, self1, w1))))"

definition remove_performance :: "string \<Rightarrow> piece \<Rightarrow> world \<Rightarrow> (error + unit) \<times> piece \<times> world" where
  "remove_performance nm self w =
     (case update self w of
        (Inl e, self1, w1) \<Rightarrow> (Inl e, self1, w1)
      | (Inr u, self1, w1) \<Rightarrow>
          (case map_of (performances self1) nm of
             None \<Rightarrow>
               (Inr (), self1,
                w1\<lparr>warnings := warnings w1 @ [RemoveMissingPerformance (name self1) nm]\<rparr>)
           | Some d \<Rightarrow>
               (case rmtree (files w1) d of
                  Inl e \<Rightarrow> (Inl e, self1, w1)
                | Inr fs2 \<Rightarrow> update self1 (w1\<lparr>files := fs2\<rparr>))))"

text \<open>
  \<open>Piece.clear_performances\<close>: the \<open>for\<close> loop iterates the dictionary that
  \<open>self.performances\<close> names when the loop starts. \<open>update\<close> binds the attribute to a new
  dictionary and never changes the old one, so the loop runs over the keys of the old one.
\<close>

fun clear_loop :: "string list \<Rightarrow> piece \<Rightarrow> world \<Rightarrow> (error + unit) \<times> piece \<times> world" where
  "clear_loop [] self w = (Inr (), self, w)"
| "clear_loop (p # ps) self w =
     (case remove_performance p self w of
        (Inl e, self1, w1) \<Rightarrow> (Inl e, self1, w1)
      | (Inr u, self1, w1) \<Rightarrow> clear_loop ps self1 w1)"

definition clear_performances :: "piece \<Rightarrow> world \<Rightarrow> (error + unit) \<times> piece \<times> world" where
  "clear_performances self w = clear_loop (map fst (performances self)) self w"

text \<open>
  \<open>Piece.add_performance\<close>. \<open>midi_file\<close> is \<open>None\<close> when no MIDI file is given (the source
  tests its truth value). \<open>time.sleep(5)\<close> changes nothing.
\<close>

definition add_performance ::
  "(filesystem \<Rightarrow> path \<Rightarrow> string \<Rightarrow> error + 'h) \<Rightarrow> string \<Rightarrow> path \<Rightarrow> path option \<Rightarrow> bool
     \<Rightarrow> piece \<Rightarrow> world \<Rightarrow> (error + unit) \<times> piece \<times> world" where
  "add_performance mk nm audio_file midi_file overwrite self w =
     (case (if map_of (performances self) nm \<noteq> None
            then (if overwrite
                  then remove_performance nm self
                         (w\<lparr>warnings := warnings w @ [OverwritingPerformance (name self) nm]\<rparr>)
                  else (Inl (PerformanceExists (name self) nm), self, w))
            else (Inr (), self, w)) of
        (Inl e, self1, w1) \<Rightarrow> (Inl e, self1, w1)
      | (Inr u, self1, w1) \<Rightarrow>
          (let new_performance_dir = join (performance_dir self1) nm in
           case mkdir (files w1) new_performance_dir of
             Inl e \<Rightarrow> (Inl e, self1, w1)
           | Inr fs2 \<Rightarrow>
               (let audio_fmt = path_ext audio_file;
                    perf_audio_filename = join new_performance_dir (nm @ audio_fmt) in
                case copyfile fs2 audio_file perf_audio_filename of
                  Inl e \<Rightarrow> (Inl e, self1, w1\<lparr>files := fs2\<rparr>)
                | Inr fs3 \<Rightarrow>
                    (case (case midi_file of
                             None \<Rightarrow> Inr fs3
                           | Some m \<Rightarrow>
                               (let midi_fmt = path_ext m;
                                    perf_midi_filename = join new_performance_dir (nm @ midi_fmt)
                                in copyfile fs3 m perf_midi_filename)) of
                       Inl e \<Rightarrow> (Inl e, self1, w1\<lparr>files := fs3\<rparr>)
                     | Inr fs4 \<Rightarrow>
                         (case update self1 (w1\<lparr>files := fs4\<rparr>) of
                            (Inl e, self2, w2) \<Rightarrow> (Inl e, self2, w2)
                          | (Inr u', self2, w2) \<Rightarrow>
                              (case load_performance mk nm self2 w2 of
                                 (Inl e, self3, w3) \<Rightarrow> (Inl e, self3, w3)
                               | (Inr performance, self3, w3) \<Rightarrow> (Inr (), self3, w3)))))))"

section \<open>Sequences of calls\<close>

text \<open>
  The authority invariant: the format is one of the four, it is a key of \<open>encodings\<close>, and
  its entry is \<open>authority\<close>.
\<close>

definition authority_consistent :: "piece \<Rightarrow> bool" where
  "authority_consistent self =
     (authority_format self \<in> set AVAILABLE_AUTHORITIES
      \<and> map_of (encodings self) (authority_format self) = Some (authority self))"

text \<open>
  A caller holds a piece and calls \<open>_set_authority\<close> and \<open>update\<close> in any order; between two
  calls the files may change by other means, which is what \<open>update\<close> is for. A call that
  raises leaves the object as it was at the \<open>raise\<close>, and the caller goes on with it.
\<close>

datatype event = CallSetAuthority string | CallUpdate | FilesChanged filesystem

fun step :: "event \<Rightarrow> piece \<Rightarrow> world \<Rightarrow> (error + unit) \<times> piece \<times> world" where
  "step (CallSetAuthority fmt) self w =
     (case set_authority fmt self of (r, self') \<Rightarrow> (r, self', w))"
| "step CallUpdate self w = update self w"
| "step (FilesChanged fs) self w = (Inr (), self, w\<lparr>files := fs\<rparr>)"

fun run :: "event list \<Rightarrow> piece \<Rightarrow> world \<Rightarrow> piece \<times> world" where
  "run [] self w = (self, w)"
| "run (e # es) self w = (case step e self w of (r, self', w') \<Rightarrow> run es self' w')"

text \<open>
  \<open>lost_from b evs self w\<close> tells whether, at the end of the run, the last call that
  counted was an \<open>update\<close> that raised the missing-encoding error: such an \<open>update\<close> sets
  the flag, a later call that succeeds (or an \<open>update\<close> that raises anything else, after it
  has set the authority) clears it, and a failed \<open>_set_authority\<close> or a change of the files
  leaves it.
\<close>

fun is_authority_missing :: "error + unit \<Rightarrow> bool" where
  "is_authority_missing (Inl (AuthorityEncodingMissing n r f vs)) = True"
| "is_authority_missing x = False"

fun next_lost :: "bool \<Rightarrow> event \<Rightarrow> error + unit \<Rightarrow> bool" where
  "next_lost b (FilesChanged fs) r = b"
| "next_lost b (CallSetAuthority fmt) r = (case r of Inr u \<Rightarrow> False | Inl e \<Rightarrow> b)"
| "next_lost b CallUpdate r = is_authority_missing r"

fun lost_from :: "bool \<Rightarrow> event list \<Rightarrow> piece \<Rightarrow> world \<Rightarrow> bool" where
  "lost_from b [] self w = b"
| "lost_from b (e # es) self w =
     (case step e self w of (r, self', w') \<Rightarrow> lost_from (next_lost b e r) es self' w')"

section \<open>A piece that matches the files\<close>

text \<open>
  The methods that change performances call \<open>update\<close> and stop when it raises. \<open>settled\<close>
  says what \<open>update\<close> needs to go through: the two directory attributes are the ones the
  constructor set, the authority format is one of the four and the scan finds a file for
  it, and the two directories exist.
\<close>

definition settled :: "piece \<Rightarrow> filesystem \<Rightarrow> bool" where
  "settled self fs =
     (performance_dir self = join (folder self) ''performances''
      \<and> score_dir self = join (folder self) ''scores''
      \<and> authority_format self \<in> set AVAILABLE_AUTHORITIES
      \<and> map_of (collect_encodings self fs) (authority_format self) \<noteq> None
      \<and> isdir fs (performance_dir self)
      \<and> isdir fs (score_dir self))"

text \<open>The piece as a successful \<open>update\<close> leaves it when the files are \<open>fs\<close>.\<close>

definition refreshed :: "piece \<Rightarrow> filesystem \<Rightarrow> piece" where
  "refreshed self fs =
     self\<lparr>encodings := collect_encodings self fs,
          authority := (case map_of (collect_encodings self fs) (authority_format self) of
                          Some a \<Rightarrow> a
                        | None \<Rightarrow> authority self),
          performances := map (\<lambda>p. (p, join (performance_dir self) p))
                            (entries fs (performance_dir self)),
          scores := map (\<lambda>s. (s, join (score_dir self) s)) (entries fs (score_dir self))\<rparr>"

text \<open>Every entry of the directory \<open>d\<close> is a directory.\<close>

definition only_directories :: "filesystem \<Rightarrow> path \<Rightarrow> bool" where
  "only_directories fs d = (\<forall>n \<in> set (entries fs d). isdir fs (join d n))"

text \<open>No entry of the table lies at \<open>d\<close> or below it.\<close>

definition nothing_below :: "path \<Rightarrow> filesystem \<Rightarrow> bool" where
  "nothing_below d fs = (\<forall>(q, n) \<in> set fs. \<not> prefix d q)"

text \<open>
  A constructor of \<open>Performance\<close> for the examples: it accepts every directory and returns
  the directory and the name of the piece.
\<close>

definition accept_directory :: "filesystem \<Rightarrow> path \<Rightarrow> string \<Rightarrow> error + (path \<times> string)" where
  "accept_directory fs d n = (if isdir fs d then Inr (d, n) else Inl PerformanceLoaderError)"

section \<open>Example states\<close>

text \<open>
  The piece of the scenarios: collection \<open>/col\<close>, piece \<open>bach\<close> with \<open>bach.ly\<close> and
  \<open>bach.mid\<close>, as an object whose authority is the LilyPond file.
\<close>

definition bach :: piece where
  "bach = \<lparr>name = ''bach'', folder = [''col'', ''bach''], collection_root = [''col''],
           performance_dir = [''col'', ''bach'', ''performances''],
           score_dir = [''col'', ''bach'', ''scores''],
           metadata = EmptyDict,
           encodings = [(''ly'', [''col'', ''bach'', ''bach.ly'']),
                        (''midi'', [''col'', ''bach'', ''bach.mid''])],
           authority_format = ''ly'', authority = [''col'', ''bach'', ''bach.ly''],
           performances = [], scores = []\<rparr>"

text \<open>The files before the piece is constructed, and the process state then.\<close>

definition bach_files :: filesystem where
  "bach_files =
     [([], Dir), ([''col''], Dir), ([''col'', ''bach''], Dir),
      ([''col'', ''bach'', ''bach.ly''], File ''ly source''),
      ([''col'', ''bach'', ''bach.mid''], File ''midi data''),
      ([''tmp''], Dir), ([''tmp'', ''rec.wav''], File ''wav data''),
      ([''tmp'', ''rec.mid''], File ''played midi'')]"

definition bach_world :: world where
  "bach_world = \<lparr>files = bach_files, warnings = [], handles = []\<rparr>"

text \<open>After construction: the two directories exist and the missing \<open>meta.yml\<close> is logged.\<close>

definition bach_disk :: filesystem where
  "bach_disk = bach_files @ [([''col'', ''bach'', ''performances''], Dir),
                             ([''col'', ''bach'', ''scores''], Dir)]"

definition bach_started :: world where
  "bach_started = \<lparr>files = bach_disk,
                    warnings = [NoMetadataFile ''bach'' ''meta.yml''], handles = []\<rparr>"

text \<open>The same files after \<open>bach.ly\<close> has been deleted by other means.\<close>

definition bach_disk_no_ly :: filesystem where
  "bach_disk_no_ly =
     [([], Dir), ([''col''], Dir), ([''col'', ''bach''], Dir),
      ([''col'', ''bach'', ''bach.mid''], File ''midi data''),
      ([''tmp''], Dir), ([''tmp'', ''rec.wav''], File ''wav data''),
      ([''tmp'', ''rec.mid''], File ''played midi''),
      ([''col'', ''bach'', ''performances''], Dir),
      ([''col'', ''bach'', ''scores''], Dir)]"

text \<open>
  The piece with the MIDI file as authority, and the files after \<open>bach.mid\<close> has been
  renamed to \<open>bach.midi\<close> by other means.
\<close>

definition bach_midi :: piece where
  "bach_midi = bach\<lparr>authority_format := ''midi'',
                     authority := [''col'', ''bach'', ''bach.mid'']\<rparr>"

definition bach_disk_midi_renamed :: filesystem where
  "bach_disk_midi_renamed =
     [([], Dir), ([''col''], Dir), ([''col'', ''bach''], Dir),
      ([''col'', ''bach'', ''bach.ly''], File ''ly source''),
      ([''col'', ''bach'', ''bach.midi''], File ''midi data''),
      ([''col'', ''bach'', ''performances''], Dir),
      ([''col'', ''bach'', ''scores''], Dir)]"

text \<open>The files with a stray regular file in the directory of the performances.\<close>

definition bach_disk_notes :: filesystem where
  "bach_disk_notes =
     bach_disk @ [([''col'', ''bach'', ''performances'', ''take1''], Dir),
                  ([''col'', ''bach'', ''performances'', ''notes.txt''], File ''to do'')]"

text \<open>The files with a metadata file.\<close>

definition bach_disk_meta :: filesystem where
  "bach_disk_meta = bach_disk @ [([''col'', ''bach'', ''meta.yml''], File ''composer: Bach'')]"

text \<open>
  The files with the performance \<open>take1\<close>, the piece that knows it, and the files after a
  directory \<open>take2\<close> has been created by other means, with the piece that knows both.
\<close>

definition bach_disk_take1 :: filesystem where
  "bach_disk_take1 =
     bach_disk @ [([''col'', ''bach'', ''performances'', ''take1''], Dir),
                  ([''col'', ''bach'', ''performances'', ''take1'', ''take1.wav''],
                   File ''first take'')]"

definition bach_take1 :: piece where
  "bach_take1 = bach\<lparr>performances := [(''take1'', [''col'', ''bach'', ''performances'', ''take1''])]\<rparr>"

definition bach_disk_take2 :: filesystem where
  "bach_disk_take2 = bach_disk_take1 @ [([''col'', ''bach'', ''performances'', ''take2''], Dir)]"

definition bach_takes :: piece where
  "bach_takes =
     bach\<lparr>performances := [(''take1'', [''col'', ''bach'', ''performances'', ''take1'']),
                           (''take2'', [''col'', ''bach'', ''performances'', ''take2''])]\<rparr>"

text \<open>The files with two recordings that have no extension.\<close>

definition bach_disk_plain :: filesystem where
  "bach_disk_plain = bach_disk @ [([''tmp'', ''rec''], File ''wav data''),
                                  ([''tmp'', ''notes''], File ''played midi'')]"


section \<open>Encoding discovery\<close>

text \<open>
  Claim C3. For a piece named \<open>P\<close> in folder \<open>F\<close>, the discovered mapping binds \<open>mxml\<close> to
  \<open>F/P.xml\<close>, \<open>ly\<close> to \<open>F/P.ly\<close> and \<open>mei\<close> to \<open>F/P.mei\<close>, each exactly when that file exists;
  it binds \<open>midi\<close> to \<open>F/P.mid\<close> when that file exists and otherwise to \<open>F/P.midi\<close> when that
  one exists; it has no other key. A kind without a file is absent, and there is no error:
  \<open>collect_encodings\<close> is a total function of the piece and the files that returns the
  mapping and nothing else, so it writes nothing.
\<close>

theorem collect_encodings_exact:
  "map_of (collect_encodings self fs) k =
     (if k = ''mxml'' then
        (if isfile fs (join (folder self) (name self @ ''.xml''))
         then Some (join (folder self) (name self @ ''.xml'')) else None)
      else if k = ''ly'' then
        (if isfile fs (join (folder self) (name self @ ''.ly''))
         then Some (join (folder self) (name self @ ''.ly'')) else None)
      else if k = ''midi'' then
        (if isfile fs (join (folder self) (name self @ ''.mid''))
         then Some (join (folder self) (name self @ ''.mid''))
         else if isfile fs (join (folder self) (name self @ ''.midi''))
         then Some (join (folder self) (name self @ ''.midi'')) else None)
      else if k = ''mei'' then
        (if isfile fs (join (folder self) (name self @ ''.mei''))
         then Some (join (folder self) (name self @ ''.mei'')) else None)
      else None)"
  by (simp add: collect_encodings_def Let_def AList.update_conv')

section \<open>Selecting the authority\<close>

text \<open>
  Claim C2. \<open>_set_authority\<close> has three outcomes. It succeeds when the format is one of the
  four and has an entry in \<open>encodings\<close>, and then \<open>authority_format\<close> and \<open>authority\<close> are
  the format and its entry, nothing else changed. It raises \<open>ValueError\<close> when the format is
  not one of the four, and the missing-encoding error when the format has no entry; in both
  cases the object is as it was.
\<close>

theorem set_authority_atomic:
  assumes "set_authority fmt self = (r, self')"
  shows "(r = Inr () \<and> fmt \<in> set AVAILABLE_AUTHORITIES
            \<and> (\<exists>a. map_of (encodings self) fmt = Some a
                  \<and> self' = self\<lparr>authority_format := fmt, authority := a\<rparr>))
       \<or> (r = Inl (AuthorityFormatNotSupported fmt) \<and> fmt \<notin> set AVAILABLE_AUTHORITIES
            \<and> self' = self)
       \<or> (r = Inl (AuthorityEncodingMissing (name self) (collection_root self) fmt
                     (map snd (encodings self)))
            \<and> fmt \<in> set AVAILABLE_AUTHORITIES \<and> map_of (encodings self) fmt = None
            \<and> self' = self)"
  using assms by (auto simp: set_authority_def split: option.splits if_splits)

theorem set_authority_atomic_witness:
  "set_authority ''midi'' bach
     = (Inr (), bach\<lparr>authority_format := ''midi'',
                       authority := [''col'', ''bach'', ''bach.mid'']\<rparr>)
   \<and> set_authority ''pdf'' bach = (Inl (AuthorityFormatNotSupported ''pdf''), bach)
   \<and> set_authority ''mei'' bach
     = (Inl (AuthorityEncodingMissing ''bach'' [''col''] ''mei''
               [[''col'', ''bach'', ''bach.ly''], [''col'', ''bach'', ''bach.mid'']]), bach)"
proof -
  obtain r1 s1 where e1: "set_authority ''midi'' bach = (r1, s1)"
    by (cases "set_authority ''midi'' bach")
  obtain r2 s2 where e2: "set_authority ''pdf'' bach = (r2, s2)"
    by (cases "set_authority ''pdf'' bach")
  obtain r3 s3 where e3: "set_authority ''mei'' bach = (r3, s3)"
    by (cases "set_authority ''mei'' bach")
  have "r1 = Inr () \<and> s1 = bach\<lparr>authority_format := ''midi'',
                                    authority := [''col'', ''bach'', ''bach.mid'']\<rparr>"
    using set_authority_atomic [OF e1] by (simp add: bach_def AVAILABLE_AUTHORITIES_def)
  moreover have "r2 = Inl (AuthorityFormatNotSupported ''pdf'') \<and> s2 = bach"
    using set_authority_atomic [OF e2] by (simp add: bach_def AVAILABLE_AUTHORITIES_def)
  moreover have "r3 = Inl (AuthorityEncodingMissing ''bach'' [''col''] ''mei''
               [[''col'', ''bach'', ''bach.ly''], [''col'', ''bach'', ''bach.mid'']]) \<and> s3 = bach"
    using set_authority_atomic [OF e3] by (simp add: bach_def AVAILABLE_AUTHORITIES_def)
  ultimately show ?thesis using e1 e2 e3 by simp
qed

section \<open>The authority invariant\<close>

lemma set_authority_result:
  "set_authority fmt self =
     (if fmt \<notin> set AVAILABLE_AUTHORITIES then (Inl (AuthorityFormatNotSupported fmt), self)
      else case map_of (encodings self) fmt of
             None \<Rightarrow> (Inl (AuthorityEncodingMissing (name self) (collection_root self) fmt
                             (map snd (encodings self))), self)
           | Some a \<Rightarrow> (Inr (), self\<lparr>authority_format := fmt, authority := a\<rparr>))"
  by (simp add: set_authority_def)

lemma update_authority_missing:
  assumes "authority_format self \<in> set AVAILABLE_AUTHORITIES"
    and "map_of (collect_encodings self (files w)) (authority_format self) = None"
  shows "update self w =
           (Inl (AuthorityEncodingMissing (name self) (collection_root self)
                   (authority_format self) (map snd (collect_encodings self (files w)))),
            self\<lparr>encodings := collect_encodings self (files w)\<rparr>, w)"
  using assms by (simp add: update_def set_authority_def Let_def)

lemma mkdir_error: "mkdir fs p = Inl e \<Longrightarrow> e = OSError"
  by (auto simp: mkdir_def split: if_splits)

lemma listdir_error: "listdir fs p = Inl e \<Longrightarrow> e = OSError"
  by (auto simp: listdir_def split: if_splits)

lemma ensure_piece_structure_error:
  "ensure_piece_structure self fs = (Inl e, fs') \<Longrightarrow> e = OSError"
  by (auto simp: ensure_piece_structure_def split: if_splits sum.splits dest: mkdir_error)

lemma collect_performances_error: "collect_performances self fs = Inl e \<Longrightarrow> e = OSError"
  by (auto simp: collect_performances_def split: sum.splits dest: listdir_error)

lemma collect_scores_error: "collect_scores self fs = Inl e \<Longrightarrow> e = OSError"
  by (auto simp: collect_scores_def split: sum.splits dest: listdir_error)

lemma update_authority_found:
  assumes "authority_format self \<in> set AVAILABLE_AUTHORITIES"
    and "map_of (collect_encodings self (files w)) (authority_format self) = Some a"
    and "update self w = (r, self', w')"
  shows "(r = Inr () \<or> r = Inl OSError)
         \<and> authority_format self' = authority_format self
         \<and> encodings self' = collect_encodings self (files w)
         \<and> authority self' = a"
  using assms
  by (auto simp: update_def set_authority_def Let_def
           split: prod.splits sum.splits
           dest: ensure_piece_structure_error collect_performances_error collect_scores_error)

lemma step_invariant:
  assumes "authority_format self \<in> set AVAILABLE_AUTHORITIES"
    and "authority_consistent self \<longleftrightarrow> \<not> b"
    and "step e self w = (r, self', w')"
  shows "authority_format self' \<in> set AVAILABLE_AUTHORITIES
         \<and> (authority_consistent self' \<longleftrightarrow> \<not> next_lost b e r)"
proof (cases e)
  case (CallSetAuthority fmt)
  then show ?thesis using assms
    by (auto simp: set_authority_result authority_consistent_def split: if_splits option.splits)
next
  case CallUpdate
  show ?thesis
  proof (cases "map_of (collect_encodings self (files w)) (authority_format self)")
    case None
    then show ?thesis using assms CallUpdate update_authority_missing [OF assms(1) None]
      by (auto simp: authority_consistent_def)
  next
    case (Some a)
    then show ?thesis
      using assms CallUpdate update_authority_found [OF assms(1) Some, of r self' w']
      by (auto simp: authority_consistent_def)
  qed
next
  case (FilesChanged fs)
  then show ?thesis using assms by auto
qed

lemma run_invariant:
  "authority_format self \<in> set AVAILABLE_AUTHORITIES \<Longrightarrow>
   (authority_consistent self \<longleftrightarrow> \<not> b) \<Longrightarrow>
   authority_format (fst (run evs self w)) \<in> set AVAILABLE_AUTHORITIES
   \<and> (authority_consistent (fst (run evs self w)) \<longleftrightarrow> \<not> lost_from b evs self w)"
proof (induction evs arbitrary: self w b)
  case Nil
  then show ?case by simp
next
  case (Cons e es)
  obtain r self' w' where s: "step e self w = (r, self', w')"
    by (cases "step e self w")
  from step_invariant [OF Cons.prems(1) Cons.prems(2) s]
  have "authority_format self' \<in> set AVAILABLE_AUTHORITIES"
    and "authority_consistent self' \<longleftrightarrow> \<not> next_lost b e r"
    by simp_all
  from Cons.IH [OF this, of w'] show ?case using s by simp
qed

lemma Piece_init_consistent:
  "Piece_init nm root fmt w0 = (Inr p, w) \<Longrightarrow> authority_consistent p"
  by (auto simp: Piece_init_def Let_def authority_consistent_def
           split: if_splits prod.splits sum.splits option.splits)

lemmas fs_defs = isfile_def isdir_def join_def mkdir_def listdir_def entries_def

lemmas piece_defs = Piece_init_def ensure_piece_structure_def load_metadata_def
  collect_encodings_def collect_performances_def collect_scores_def
  AVAILABLE_AUTHORITIES_def DEFAULT_META_FNAME_def set_authority_def update_def

lemmas bach_defs = bach_def bach_files_def bach_world_def bach_disk_def bach_started_def

lemma Piece_init_bach: "Piece_init ''bach'' [''col''] ''ly'' bach_world = (Inr bach, bach_started)"
  by (simp add: piece_defs fs_defs bach_defs Let_def)

text \<open>
  Claim C1, as stated, fails: the piece is constructed with \<open>ly\<close> as authority, \<open>bach.ly\<close> is
  deleted, and \<open>update\<close> is called. The call raises after it has replaced \<open>encodings\<close>, and
  the object that the caller still holds has \<open>ly\<close> as \<open>authority_format\<close> and no key \<open>ly\<close>.
\<close>

theorem authority_invariant_counterexample:
  "Piece_init ''bach'' [''col''] ''ly'' bach_world = (Inr bach, bach_started)
   \<and> step (FilesChanged bach_disk_no_ly) bach bach_started
       = (Inr (), bach, bach_started\<lparr>files := bach_disk_no_ly\<rparr>)
   \<and> step CallUpdate bach (bach_started\<lparr>files := bach_disk_no_ly\<rparr>)
       = (Inl (AuthorityEncodingMissing ''bach'' [''col''] ''ly''
                 [[''col'', ''bach'', ''bach.mid'']]),
          bach\<lparr>encodings := [(''midi'', [''col'', ''bach'', ''bach.mid''])]\<rparr>,
          bach_started\<lparr>files := bach_disk_no_ly\<rparr>)
   \<and> fst (run [FilesChanged bach_disk_no_ly, CallUpdate] bach bach_started)
       = bach\<lparr>encodings := [(''midi'', [''col'', ''bach'', ''bach.mid''])]\<rparr>
   \<and> authority_format (fst (run [FilesChanged bach_disk_no_ly, CallUpdate] bach bach_started))
       = ''ly''
   \<and> ''ly'' \<notin> fst ` set (encodings
         (fst (run [FilesChanged bach_disk_no_ly, CallUpdate] bach bach_started)))
   \<and> \<not> authority_consistent
         (fst (run [FilesChanged bach_disk_no_ly, CallUpdate] bach bach_started))"
proof -
  have u: "update bach (bach_started\<lparr>files := bach_disk_no_ly\<rparr>)
       = (Inl (AuthorityEncodingMissing ''bach'' [''col''] ''ly''
                 [[''col'', ''bach'', ''bach.mid'']]),
          bach\<lparr>encodings := [(''midi'', [''col'', ''bach'', ''bach.mid''])]\<rparr>,
          bach_started\<lparr>files := bach_disk_no_ly\<rparr>)"
    by (simp add: piece_defs fs_defs bach_defs bach_disk_no_ly_def Let_def)
  show ?thesis
    by (simp add: Piece_init_bach u authority_consistent_def) (simp add: bach_def)
qed

text \<open>
  Claim C1, amended. On a constructed piece, after any sequence of \<open>_set_authority\<close> and
  \<open>update\<close> calls, with any changes of the files in between, \<open>authority_format\<close> is one of
  the four formats; and it is a key of \<open>encodings\<close> with \<open>authority\<close> as its entry at
  exactly the points that do not lie between an \<open>update\<close> that raised the missing-encoding
  error and the next call that set the authority.
\<close>

theorem authority_invariant_except_after_failed_update:
  assumes "Piece_init nm root fmt w0 = (Inr p, w1)"
  shows "authority_format (fst (run evs p w)) \<in> set AVAILABLE_AUTHORITIES
         \<and> (authority_consistent (fst (run evs p w)) \<longleftrightarrow> \<not> lost_from False evs p w)"
proof -
  have c: "authority_consistent p"
    using assms by (rule Piece_init_consistent)
  then have "authority_format p \<in> set AVAILABLE_AUTHORITIES"
    by (simp add: authority_consistent_def)
  moreover have "authority_consistent p \<longleftrightarrow> \<not> False"
    using c by simp
  ultimately show ?thesis
    by (rule run_invariant)
qed

theorem authority_invariant_except_after_failed_update_witness:
  "Piece_init ''bach'' [''col''] ''ly'' bach_world = (Inr bach, bach_started)
   \<and> \<not> lost_from False [CallSetAuthority ''midi'', CallSetAuthority ''mei'', CallUpdate]
         bach bach_started
   \<and> authority_consistent
       (fst (run [CallSetAuthority ''midi'', CallSetAuthority ''mei'', CallUpdate]
               bach bach_started))"
proof -
  have s1: "set_authority ''midi'' bach = (Inr (), bach_midi)"
    by (simp add: set_authority_def AVAILABLE_AUTHORITIES_def bach_def bach_midi_def)
  have s2: "set_authority ''mei'' bach_midi
      = (Inl (AuthorityEncodingMissing ''bach'' [''col''] ''mei''
               [[''col'', ''bach'', ''bach.ly''], [''col'', ''bach'', ''bach.mid'']]), bach_midi)"
    by (simp add: set_authority_def AVAILABLE_AUTHORITIES_def bach_def bach_midi_def)
  have u: "update bach_midi bach_started = (Inr (), bach_midi, bach_started)"
    by (simp add: piece_defs fs_defs bach_defs bach_midi_def Let_def)
  have l: "\<not> lost_from False [CallSetAuthority ''midi'', CallSetAuthority ''mei'', CallUpdate]
         bach bach_started"
    by (simp add: s1 s2 u)
  show ?thesis
    using authority_invariant_except_after_failed_update [OF Piece_init_bach,
        of "[CallSetAuthority ''midi'', CallSetAuthority ''mei'', CallUpdate]" bach_started] l
    by (simp add: Piece_init_bach)
qed

section \<open>A failed \<open>update\<close>\<close>

lemma collect_encodings_isfile:
  "(k, v) \<in> set (collect_encodings self fs) \<Longrightarrow> isfile fs v"
  by (auto simp: collect_encodings_def Let_def split: if_splits)

text \<open>
  Claim C10, as stated, fails for the MIDI authority: \<open>bach.mid\<close> is the authority file and
  is gone, but \<open>bach.midi\<close> is there, and \<open>update\<close> raises nothing: the scan falls back to
  \<open>bach.midi\<close> and the authority becomes that file.
\<close>

theorem update_after_removal_counterexample:
  "authority bach_midi = [''col'', ''bach'', ''bach.mid'']
   \<and> \<not> isfile bach_disk_midi_renamed (authority bach_midi)
   \<and> update bach_midi \<lparr>files = bach_disk_midi_renamed, warnings = [], handles = []\<rparr>
       = (Inr (),
          bach_midi\<lparr>encodings := [(''ly'', [''col'', ''bach'', ''bach.ly'']),
                                   (''midi'', [''col'', ''bach'', ''bach.midi''])],
                     authority := [''col'', ''bach'', ''bach.midi'']\<rparr>,
          \<lparr>files = bach_disk_midi_renamed, warnings = [], handles = []\<rparr>)"
  by (simp add: piece_defs fs_defs bach_def bach_midi_def bach_disk_midi_renamed_def Let_def)

text \<open>
  Claim C10, amended. When the authority file is gone and the scan finds no file for the
  authority format (for \<open>midi\<close>, neither \<open>P.mid\<close> nor \<open>P.midi\<close>), \<open>update\<close> raises the
  missing-encoding error after it has replaced \<open>encodings\<close> by the result of the scan: in
  the object left behind, \<open>authority_format\<close> is not a key of \<open>encodings\<close>, \<open>authority\<close> is
  none of its values, and \<open>performances\<close> and \<open>scores\<close> are the old ones. Nothing else
  changed, the files included.
\<close>

theorem update_raises_after_replacing_encodings:
  assumes "authority_format self \<in> set AVAILABLE_AUTHORITIES"
    and "\<not> isfile (files w) (authority self)"
    and "map_of (collect_encodings self (files w)) (authority_format self) = None"
  shows "update self w =
           (Inl (AuthorityEncodingMissing (name self) (collection_root self)
                   (authority_format self) (map snd (collect_encodings self (files w)))),
            self\<lparr>encodings := collect_encodings self (files w)\<rparr>, w)
         \<and> authority_format self \<notin> fst ` set (collect_encodings self (files w))
         \<and> authority self \<notin> snd ` set (collect_encodings self (files w))
         \<and> performances (fst (snd (update self w))) = performances self
         \<and> scores (fst (snd (update self w))) = scores self
         \<and> authority_format (fst (snd (update self w))) = authority_format self
         \<and> authority (fst (snd (update self w))) = authority self"
proof -
  have u: "update self w =
           (Inl (AuthorityEncodingMissing (name self) (collection_root self)
                   (authority_format self) (map snd (collect_encodings self (files w)))),
            self\<lparr>encodings := collect_encodings self (files w)\<rparr>, w)"
    using assms(1) assms(3) by (rule update_authority_missing)
  have k: "authority_format self \<notin> fst ` set (collect_encodings self (files w))"
    using assms(3) by (simp add: map_of_eq_None_iff)
  have v: "authority self \<notin> snd ` set (collect_encodings self (files w))"
    using assms(2) collect_encodings_isfile by fastforce
  show ?thesis
    using k v by (simp add: u)
qed

theorem update_raises_after_replacing_encodings_witness:
  "authority_format bach \<in> set AVAILABLE_AUTHORITIES
   \<and> \<not> isfile bach_disk_no_ly (authority bach)
   \<and> map_of (collect_encodings bach bach_disk_no_ly) (authority_format bach) = None
   \<and> update bach (bach_started\<lparr>files := bach_disk_no_ly\<rparr>) =
       (Inl (AuthorityEncodingMissing ''bach'' [''col''] ''ly'' [[''col'', ''bach'', ''bach.mid'']]),
        bach\<lparr>encodings := [(''midi'', [''col'', ''bach'', ''bach.mid''])]\<rparr>,
        bach_started\<lparr>files := bach_disk_no_ly\<rparr>)"
proof -
  have a: "authority_format bach \<in> set AVAILABLE_AUTHORITIES"
    by (simp add: bach_def AVAILABLE_AUTHORITIES_def)
  have b: "\<not> isfile (files (bach_started\<lparr>files := bach_disk_no_ly\<rparr>)) (authority bach)"
    by (simp add: bach_def bach_disk_no_ly_def isfile_def)
  have s: "collect_encodings bach bach_disk_no_ly = [(''midi'', [''col'', ''bach'', ''bach.mid''])]"
    by (simp add: collect_encodings_def fs_defs bach_def bach_disk_no_ly_def Let_def)
  have c: "map_of (collect_encodings bach (files (bach_started\<lparr>files := bach_disk_no_ly\<rparr>)))
             (authority_format bach) = None"
    by (simp add: s) (simp add: bach_def)
  show ?thesis
    using update_raises_after_replacing_encodings [OF a b c] a b c
    by (simp add: s) (simp add: bach_def)
qed

section \<open>Construction without the requested encoding\<close>

lemma collect_encodings_cong:
  "name s = name t \<Longrightarrow> folder s = folder t \<Longrightarrow> collect_encodings s fs = collect_encodings t fs"
  by (simp add: collect_encodings_def Let_def)

text \<open>
  Claim C4, as stated, fails: constructing the piece with \<open>mxml\<close> over \<open>bach.ly\<close> and
  \<open>bach.mid\<close> raises the missing-encoding error, and what the error lists as available is
  \<open>self.encodings.values()\<close>, the two paths, not the kinds \<open>ly\<close> and \<open>midi\<close>.
\<close>

lemma Piece_init_bach_mxml:
  "Piece_init ''bach'' [''col''] ''mxml'' bach_world =
     (Inl (AuthorityEncodingMissing ''bach'' [''col''] ''mxml''
             [[''col'', ''bach'', ''bach.ly''], [''col'', ''bach'', ''bach.mid'']]),
      bach_started)"
  by (simp add: piece_defs fs_defs bach_defs Let_def)

theorem init_missing_authority_counterexample:
  "Piece_init ''bach'' [''col''] ''mxml'' bach_world =
     (Inl (AuthorityEncodingMissing ''bach'' [''col''] ''mxml''
             [[''col'', ''bach'', ''bach.ly''], [''col'', ''bach'', ''bach.mid'']]),
      bach_started)
   \<and> [[''col'', ''bach'', ''bach.ly''], [''col'', ''bach'', ''bach.mid'']]
       \<noteq> map (\<lambda>kind. [kind]) [''ly'', ''midi'']"
  by (simp add: Piece_init_bach_mxml)

lemma ensure_piece_structure_cong:
  "performance_dir s = performance_dir t \<Longrightarrow> score_dir s = score_dir t \<Longrightarrow>
   ensure_piece_structure s fs = ensure_piece_structure t fs"
  by (auto simp: ensure_piece_structure_def split: sum.splits)

lemma load_metadata_succeeds:
  "\<exists>md w2. load_metadata self w = (Inr md, w2) \<and> files w2 = files w"
  by (auto simp: load_metadata_def open_file_def close_file_def isfile_def Let_def
           split: option.splits node.splits)

text \<open>
  Claim C4, amended. When the collection root and the folder of the piece exist, the two
  directories exist or can be made, and the requested format is one of the four but no key
  of the discovered encodings, construction raises the missing-encoding error, which names
  the piece, the root, the requested format and the paths of the encoding files found. In
  the statement \<open>s\<close> is any piece with the name and the paths that the constructor assigns
  first, and \<open>fs1\<close> the files once the two directories are there.
\<close>

theorem init_missing_authority_lists_paths:
  assumes "isdir (files w) root"
    and "isdir (files w) (join root nm)"
    and "fmt \<in> set AVAILABLE_AUTHORITIES"
    and "name s = nm" and "folder s = join root nm"
    and "performance_dir s = join (join root nm) ''performances''"
    and "score_dir s = join (join root nm) ''scores''"
    and "ensure_piece_structure s (files w) = (Inr (), fs1)"
    and "map_of (collect_encodings s fs1) fmt = None"
  shows "\<exists>w'. Piece_init nm root fmt w =
                 (Inl (AuthorityEncodingMissing nm root fmt
                         (map snd (collect_encodings s fs1))), w')
              \<and> files w' = fs1"
proof -
  let ?self0 = "\<lparr>name = nm, folder = join root nm, collection_root = root,
                  performance_dir = join (join root nm) ''performances'',
                  score_dir = join (join root nm) ''scores'',
                  metadata = EmptyDict, encodings = [], authority_format = [],
                  authority = [], performances = [], scores = []\<rparr>"
  have "ensure_piece_structure ?self0 (files w) = ensure_piece_structure s (files w)"
    using assms(6) assms(7) by (intro ensure_piece_structure_cong) simp_all
  then have en: "ensure_piece_structure ?self0 (files w) = (Inr (), fs1)"
    using assms(8) by simp
  obtain md w2 where lm: "load_metadata ?self0 (w\<lparr>files := fs1\<rparr>) = (Inr md, w2)"
    and f2: "files w2 = fs1"
    using load_metadata_succeeds [of ?self0 "w\<lparr>files := fs1\<rparr>"] by auto
  have "collect_encodings (?self0\<lparr>metadata := md\<rparr>) fs1 = collect_encodings s fs1"
    using assms(4) assms(5) by (intro collect_encodings_cong) simp_all
  then have ce: "collect_encodings
                   \<lparr>name = nm, folder = join root nm, collection_root = root,
                      performance_dir = join (join root nm) ''performances'',
                      score_dir = join (join root nm) ''scores'',
                      metadata = md, encodings = [], authority_format = [],
                      authority = [], performances = [], scores = []\<rparr> fs1
                 = collect_encodings s fs1"
    by simp
  have "Piece_init nm root fmt w =
          (Inl (AuthorityEncodingMissing nm root fmt (map snd (collect_encodings s fs1))), w2)"
    using assms(1) assms(2) assms(3) assms(9)
    by (simp add: Piece_init_def Let_def en lm f2 ce)
  then show ?thesis
    using f2 by simp
qed

theorem init_missing_authority_lists_paths_witness:
  "isdir (files bach_world) [''col'']
   \<and> isdir (files bach_world) (join [''col''] ''bach'')
   \<and> ''mxml'' \<in> set AVAILABLE_AUTHORITIES
   \<and> ensure_piece_structure bach (files bach_world) = (Inr (), bach_disk)
   \<and> map_of (collect_encodings bach bach_disk) ''mxml'' = None
   \<and> (\<exists>w'. Piece_init ''bach'' [''col''] ''mxml'' bach_world =
              (Inl (AuthorityEncodingMissing ''bach'' [''col''] ''mxml''
                      (map snd (collect_encodings bach bach_disk))), w')
            \<and> files w' = bach_disk)"
proof -
  have a: "isdir (files bach_world) [''col'']"
    by (simp add: fs_defs bach_defs)
  have b: "isdir (files bach_world) (join [''col''] ''bach'')"
    by (simp add: fs_defs bach_defs)
  have c: "''mxml'' \<in> set AVAILABLE_AUTHORITIES"
    by (simp add: AVAILABLE_AUTHORITIES_def)
  have n: "name bach = ''bach''" and f: "folder bach = join [''col''] ''bach''"
    and p: "performance_dir bach = join (join [''col''] ''bach'') ''performances''"
    and s: "score_dir bach = join (join [''col''] ''bach'') ''scores''"
    by (simp_all add: bach_def join_def)
  have d: "ensure_piece_structure bach (files bach_world) = (Inr (), bach_disk)"
    by (simp add: ensure_piece_structure_def fs_defs bach_defs)
  have e: "map_of (collect_encodings bach bach_disk) ''mxml'' = None"
    by (simp add: collect_encodings_def fs_defs bach_defs Let_def)
  show ?thesis
    using init_missing_authority_lists_paths [OF a b c n f p s d e] a b c d e
    by simp
qed

section \<open>Performances and scores are the entries of their directories\<close>

text \<open>
  Claim C5 says that only directories become keys of \<open>performances\<close> and \<open>scores\<close>. The
  scan is \<open>os.listdir\<close>, which returns every entry: with the directory \<open>take1\<close> and the
  regular file \<open>notes.txt\<close> in \<open>performances/\<close>, both are keys after \<open>collect_performances\<close>
  and after \<open>update\<close>, although \<open>notes.txt\<close> is a file and no directory.
\<close>

theorem collect_performances_lists_files:
  "collect_performances bach bach_disk_notes =
     Inr [(''take1'', [''col'', ''bach'', ''performances'', ''take1'']),
          (''notes.txt'', [''col'', ''bach'', ''performances'', ''notes.txt''])]
   \<and> isfile bach_disk_notes [''col'', ''bach'', ''performances'', ''notes.txt'']
   \<and> \<not> isdir bach_disk_notes [''col'', ''bach'', ''performances'', ''notes.txt'']
   \<and> map fst (performances (fst (snd (update bach (bach_started\<lparr>files := bach_disk_notes\<rparr>)))))
       = [''take1'', ''notes.txt'']"
  by (simp add: piece_defs fs_defs bach_defs bach_disk_notes_def Let_def)

section \<open>Metadata\<close>

text \<open>
  Claim C6 says that a present \<open>meta.yml\<close> is parsed into a mapping that the caller can
  use. With \<open>meta.yml\<close> in the folder, \<open>load_metadata\<close> returns the generator of
  \<open>yaml.load_all\<close> after the \<open>with\<close> block has closed the file: nothing has been parsed, and
  iterating the value reads a closed file, which raises \<open>ValueError\<close>, whatever the parser.
\<close>

theorem load_metadata_returns_generator_on_closed_file:
  "load_metadata bach \<lparr>files = bach_disk_meta, warnings = [], handles = []\<rparr> =
     (Inr (YamlLoadAll 0),
      \<lparr>files = bach_disk_meta, warnings = [], handles = [(''composer: Bach'', False)]\<rparr>)
   \<and> iterate_metadata parse (YamlLoadAll 0)
       \<lparr>files = bach_disk_meta, warnings = [], handles = [(''composer: Bach'', False)]\<rparr>
       = Inl ValueErrorClosedFile"
  by (simp add: load_metadata_def open_file_def close_file_def yaml_load_all_def
                iterate_metadata_def read_handle_def DEFAULT_META_FNAME_def
                fs_defs bach_defs bach_disk_meta_def Let_def)

section \<open>The table of files under the file system calls\<close>

lemma map_of_filter_key:
  "map_of (filter (\<lambda>(k, v). P k) xs) q = (if P q then map_of xs q else None)"
  by (induction xs) auto

lemma set_entries: "set (entries fs d) = {n. map_of fs (d @ [n]) \<noteq> None}"
proof -
  have "set (entries fs d) = {last q | q. q \<in> fst ` set fs \<and> q \<noteq> [] \<and> butlast q = d}"
    by (force simp: entries_def)
  also have "\<dots> = {n. d @ [n] \<in> fst ` set fs}"
  proof (intro set_eqI iffI)
    fix n assume "n \<in> {last q | q. q \<in> fst ` set fs \<and> q \<noteq> [] \<and> butlast q = d}"
    then obtain q where q: "n = last q" "q \<in> fst ` set fs" "q \<noteq> []" "butlast q = d"
      by blast
    then have "d @ [n] = q" by (metis append_butlast_last_id)
    then show "n \<in> {n. d @ [n] \<in> fst ` set fs}" using q(2) by simp
  next
    fix n assume "n \<in> {n. d @ [n] \<in> fst ` set fs}"
    then have "d @ [n] \<in> fst ` set fs" by simp
    moreover have "last (d @ [n]) = n" "butlast (d @ [n]) = d" "d @ [n] \<noteq> []" by simp_all
    ultimately show "n \<in> {last q | q. q \<in> fst ` set fs \<and> q \<noteq> [] \<and> butlast q = d}"
      by (metis (mono_tags, lifting) mem_Collect_eq)
  qed
  also have "\<dots> = {n. map_of fs (d @ [n]) \<noteq> None}"
    by (simp add: map_of_eq_None_iff)
  finally show ?thesis .
qed

lemma collect_encodings_agree:
  assumes "\<And>x. isfile fs' (join (folder self) x) = isfile fs (join (folder self) x)"
  shows "collect_encodings self fs' = collect_encodings self fs"
  by (simp add: collect_encodings_def Let_def assms)

text \<open>Two tables that differ only at \<open>folder/performances/nm\<close> and below.\<close>

lemma settled_agree:
  assumes s: "settled self fs"
    and a: "\<And>q. \<not> prefix (join (performance_dir self) nm) q \<Longrightarrow> map_of fs' q = map_of fs q"
  shows "settled self fs'"
proof -
  have pd: "performance_dir self = join (folder self) ''performances''"
    and sd: "score_dir self = join (folder self) ''scores''"
    using s by (simp_all add: settled_def)
  have np: "\<And>x. \<not> prefix (join (performance_dir self) nm) (join (folder self) x)"
    by (auto simp: pd join_def prefix_def)
  have nd: "\<not> prefix (join (performance_dir self) nm) (performance_dir self)"
    by (auto simp: join_def prefix_def)
  have "\<And>x. isfile fs' (join (folder self) x) = isfile fs (join (folder self) x)"
    by (simp add: isfile_def a [OF np])
  then have "collect_encodings self fs' = collect_encodings self fs"
    by (rule collect_encodings_agree)
  moreover have "isdir fs' (performance_dir self) = isdir fs (performance_dir self)"
    by (simp add: isdir_def a [OF nd])
  moreover have "isdir fs' (score_dir self) = isdir fs (score_dir self)"
    using a [OF np, of "''scores''"] by (simp add: isdir_def sd)
  ultimately show ?thesis
    using s by (auto simp: settled_def)
qed

text \<open>On a settled piece \<open>update\<close> succeeds, writes nothing and rebuilds the index.\<close>

lemma update_settled:
  assumes "settled self (files w)"
  shows "update self w = (Inr (), refreshed self (files w), w)"
  using assms
  by (auto simp: settled_def update_def set_authority_def ensure_piece_structure_def
                 collect_performances_def collect_scores_def listdir_def Let_def
                 refreshed_def)

lemma refreshed_fields [simp]:
  "name (refreshed self fs) = name self"
  "folder (refreshed self fs) = folder self"
  "collection_root (refreshed self fs) = collection_root self"
  "performance_dir (refreshed self fs) = performance_dir self"
  "score_dir (refreshed self fs) = score_dir self"
  "authority_format (refreshed self fs) = authority_format self"
  "performances (refreshed self fs) =
     map (\<lambda>p. (p, join (performance_dir self) p)) (entries fs (performance_dir self))"
  by (simp_all add: refreshed_def)

lemma settled_refreshed [simp]: "settled (refreshed self fs) fs' = settled self fs'"
proof -
  have "collect_encodings (refreshed self fs) fs' = collect_encodings self fs'"
    by (rule collect_encodings_cong) simp_all
  then show ?thesis
    by (simp add: settled_def)
qed

section \<open>Removing performances\<close>

lemma map_of_index:
  "map_of (map (\<lambda>p. (p, join d p)) ns) k = (if k \<in> set ns then Some (join d k) else None)"
  by (simp add: map_of_map_restrict restrict_map_def)

lemma map_of_without:
  "map_of (filter (\<lambda>(q, n). \<not> prefix d q) fs) q = (if prefix d q then None else map_of fs q)"
  by (simp add: map_of_filter_key)

lemma entries_without:
  "set (entries (filter (\<lambda>(q, n). \<not> prefix (join d nm) q) fs) d) = set (entries fs d) - {nm}"
  by (auto simp: set_entries map_of_without join_def)

lemma settled_without:
  assumes "settled self fs"
  shows "settled self (filter (\<lambda>(q, n). \<not> prefix (join (performance_dir self) nm) q) fs)"
  using assms by (rule settled_agree [where nm = nm]) (simp add: map_of_without)

text \<open>
  On a settled piece \<open>remove_performance\<close> succeeds when the entry of that name, if there
  is one, is a directory: it removes what lies at or below the entry and rebuilds the index.
  Without such an entry it logs the warning and changes no file.
\<close>

lemma remove_performance_settled:
  assumes s: "settled self (files w)"
    and d: "nm \<in> set (entries (files w) (performance_dir self)) \<Longrightarrow>
            isdir (files w) (join (performance_dir self) nm)"
  shows "remove_performance nm self w =
           (if nm \<in> set (entries (files w) (performance_dir self))
            then (Inr (),
                  refreshed (refreshed self (files w))
                    (filter (\<lambda>(q, n). \<not> prefix (join (performance_dir self) nm) q) (files w)),
                  w\<lparr>files := filter (\<lambda>(q, n). \<not> prefix (join (performance_dir self) nm) q)
                                (files w)\<rparr>)
            else (Inr (), refreshed self (files w),
                  w\<lparr>warnings := warnings w @ [RemoveMissingPerformance (name self) nm]\<rparr>))"
proof (cases "nm \<in> set (entries (files w) (performance_dir self))")
  case False
  then show ?thesis
    by (simp add: remove_performance_def update_settled [OF s] map_of_index)
next
  case True
  let ?fs2 = "filter (\<lambda>(q, n). \<not> prefix (join (performance_dir self) nm) q) (files w)"
  have rm: "rmtree (files w) (join (performance_dir self) nm) = Inr ?fs2"
    using d [OF True] by (simp add: rmtree_def)
  have "settled (refreshed self (files w)) (files (w\<lparr>files := ?fs2\<rparr>))"
    using settled_without [OF s] by simp
  then have u2: "update (refreshed self (files w)) (w\<lparr>files := ?fs2\<rparr>) =
                   (Inr (), refreshed (refreshed self (files w)) ?fs2, w\<lparr>files := ?fs2\<rparr>)"
    using update_settled [of "refreshed self (files w)" "w\<lparr>files := ?fs2\<rparr>"] by simp
  show ?thesis
    using True by (simp add: remove_performance_def update_settled [OF s] map_of_index rm u2)
qed

text \<open>What the call leaves, read off the result.\<close>

lemma remove_performance_post:
  assumes s: "settled self (files w)"
    and d: "nm \<in> set (entries (files w) (performance_dir self)) \<Longrightarrow>
            isdir (files w) (join (performance_dir self) nm)"
  shows "fst (remove_performance nm self w) = Inr ()"
    and "name (fst (snd (remove_performance nm self w))) = name self"
    and "performance_dir (fst (snd (remove_performance nm self w))) = performance_dir self"
    and "settled (fst (snd (remove_performance nm self w)))
           (files (snd (snd (remove_performance nm self w))))"
    and "\<not> prefix (join (performance_dir self) nm) q \<Longrightarrow>
           map_of (files (snd (snd (remove_performance nm self w)))) q = map_of (files w) q"
    and "isdir (files w) (join (performance_dir self) nm) \<Longrightarrow>
           prefix (join (performance_dir self) nm) q \<Longrightarrow>
           map_of (files (snd (snd (remove_performance nm self w)))) q = None"
    and "set (entries (files (snd (snd (remove_performance nm self w)))) (performance_dir self))
           = set (entries (files w) (performance_dir self)) - {nm}"
    and "performances (fst (snd (remove_performance nm self w))) =
           map (\<lambda>p. (p, join (performance_dir self) p))
             (entries (files (snd (snd (remove_performance nm self w)))) (performance_dir self))"
proof -
  note r = remove_performance_settled [OF s d]
  have ne: "nm \<notin> set (entries (files w) (performance_dir self)) \<Longrightarrow>
            \<not> isdir (files w) (join (performance_dir self) nm)"
    by (simp add: set_entries join_def isdir_def)
  show "fst (remove_performance nm self w) = Inr ()"
    by (simp add: r)
  show "name (fst (snd (remove_performance nm self w))) = name self"
    by (simp add: r)
  show "performance_dir (fst (snd (remove_performance nm self w))) = performance_dir self"
    by (simp add: r)
  show "settled (fst (snd (remove_performance nm self w)))
          (files (snd (snd (remove_performance nm self w))))"
    using s settled_without [OF s] by (simp add: r)
  show "\<not> prefix (join (performance_dir self) nm) q \<Longrightarrow>
          map_of (files (snd (snd (remove_performance nm self w)))) q = map_of (files w) q"
    by (simp add: r map_of_without)
  show "isdir (files w) (join (performance_dir self) nm) \<Longrightarrow>
          prefix (join (performance_dir self) nm) q \<Longrightarrow>
          map_of (files (snd (snd (remove_performance nm self w)))) q = None"
    using ne by (auto simp: r map_of_without)
  show "set (entries (files (snd (snd (remove_performance nm self w)))) (performance_dir self))
          = set (entries (files w) (performance_dir self)) - {nm}"
    by (simp add: r entries_without)
  show "performances (fst (snd (remove_performance nm self w))) =
          map (\<lambda>p. (p, join (performance_dir self) p))
            (entries (files (snd (snd (remove_performance nm self w)))) (performance_dir self))"
    by (simp add: r)
qed

lemma only_directories_after:
  assumes "only_directories fs d"
    and "\<And>q. \<not> prefix (join d nm) q \<Longrightarrow> map_of fs' q = map_of fs q"
    and "set (entries fs' d) = set (entries fs d) - {nm}"
  shows "only_directories fs' d"
  unfolding only_directories_def
proof
  fix n assume n: "n \<in> set (entries fs' d)"
  then have "n \<in> set (entries fs d)" and "n \<noteq> nm"
    using assms(3) by auto
  then have "isdir fs (join d n)" and "\<not> prefix (join d nm) (join d n)"
    using assms(1) by (auto simp: only_directories_def join_def)
  then show "isdir fs' (join d n)"
    using assms(2) by (simp add: isdir_def)
qed

text \<open>The loop of \<open>clear_performances\<close>, by induction on the names still to visit.\<close>

lemma clear_loop_settled:
  "settled self (files w) \<Longrightarrow> only_directories (files w) (performance_dir self) \<Longrightarrow>
   fst (clear_loop ns self w) = Inr ()
   \<and> performance_dir (fst (snd (clear_loop ns self w))) = performance_dir self
   \<and> isdir (files (snd (snd (clear_loop ns self w)))) (performance_dir self)
   \<and> set (entries (files (snd (snd (clear_loop ns self w)))) (performance_dir self))
        = set (entries (files w) (performance_dir self)) - set ns
   \<and> (ns \<noteq> [] \<longrightarrow>
        performances (fst (snd (clear_loop ns self w))) =
          map (\<lambda>p. (p, join (performance_dir self) p))
            (entries (files (snd (snd (clear_loop ns self w)))) (performance_dir self)))"
proof (induction ns arbitrary: self w)
  case Nil
  then have "isdir (files w) (performance_dir self)"
    by (auto simp: settled_def)
  then show ?case
    by simp
next
  case (Cons n ns)
  let ?pd = "performance_dir self"
  define self1 where "self1 = fst (snd (remove_performance n self w))"
  define w1 where "w1 = snd (snd (remove_performance n self w))"
  have d: "n \<in> set (entries (files w) ?pd) \<Longrightarrow> isdir (files w) (join ?pd n)"
    using Cons.prems(2) by (simp add: only_directories_def)
  note post = remove_performance_post [OF Cons.prems(1) d, folded self1_def w1_def]
  have r: "remove_performance n self w = (Inr (), self1, w1)"
    using post(1) by (simp add: self1_def w1_def prod_eq_iff)
  have pd1: "performance_dir self1 = ?pd"
    by (rule post(3))
  have s1: "settled self1 (files w1)"
    by (rule post(4))
  have e1: "set (entries (files w1) ?pd) = set (entries (files w) ?pd) - {n}"
    by (rule post(7))
  have p1: "performances self1 = map (\<lambda>p. (p, join ?pd p)) (entries (files w1) ?pd)"
    by (rule post(8))
  have "only_directories (files w1) ?pd"
    using Cons.prems(2) post(5) e1 by (rule only_directories_after)
  then have o1: "only_directories (files w1) (performance_dir self1)"
    by (simp add: pd1)
  note ih = Cons.IH [OF s1 o1, unfolded pd1]
  have c: "clear_loop (n # ns) self w = clear_loop ns self1 w1"
    by (simp add: r)
  have e: "set (entries (files (snd (snd (clear_loop ns self1 w1)))) ?pd)
             = set (entries (files w) ?pd) - set (n # ns)"
    using ih e1 by auto
  have p: "performances (fst (snd (clear_loop ns self1 w1))) =
             map (\<lambda>p. (p, join ?pd p)) (entries (files (snd (snd (clear_loop ns self1 w1)))) ?pd)"
  proof (cases "ns = []")
    case True
    then show ?thesis by (simp add: p1)
  next
    case False
    then show ?thesis using ih by simp
  qed
  show ?case
    unfolding c using ih e p by simp
qed

lemmas take_defs = bach_disk_take1_def bach_take1_def bach_disk_take2_def bach_takes_def

text \<open>
  Claim C9, as stated, fails. The piece knows the performance \<open>take1\<close> from its last
  \<open>update\<close>; then a directory \<open>take2\<close> is created by other means. The directory of the
  performances contains only directories, but \<open>clear_performances\<close> visits the keys it has,
  removes \<open>take1\<close> and leaves \<open>take2\<close>, which the last scan puts into \<open>performances\<close>.
\<close>

theorem clear_performances_counterexample:
  "update bach (bach_started\<lparr>files := bach_disk_take1\<rparr>)
     = (Inr (), bach_take1, bach_started\<lparr>files := bach_disk_take1\<rparr>)
   \<and> only_directories bach_disk_take2 (performance_dir bach_take1)
   \<and> clear_performances bach_take1 (bach_started\<lparr>files := bach_disk_take2\<rparr>)
     = (Inr (),
        bach\<lparr>performances := [(''take2'', [''col'', ''bach'', ''performances'', ''take2''])]\<rparr>,
        bach_started\<lparr>files := bach_disk @ [([''col'', ''bach'', ''performances'', ''take2''], Dir)]\<rparr>)
   \<and> performances (fst (snd (clear_performances bach_take1
                                (bach_started\<lparr>files := bach_disk_take2\<rparr>)))) \<noteq> []
   \<and> isdir (files (snd (snd (clear_performances bach_take1
                                (bach_started\<lparr>files := bach_disk_take2\<rparr>)))))
        [''col'', ''bach'', ''performances'', ''take2'']"
proof -
  have u: "update bach (bach_started\<lparr>files := bach_disk_take1\<rparr>)
     = (Inr (), bach_take1, bach_started\<lparr>files := bach_disk_take1\<rparr>)"
    by (simp add: piece_defs fs_defs bach_defs take_defs Let_def)
  have o: "only_directories bach_disk_take2 (performance_dir bach_take1)"
    by (simp add: only_directories_def fs_defs bach_defs take_defs)
  have c: "clear_performances bach_take1 (bach_started\<lparr>files := bach_disk_take2\<rparr>)
     = (Inr (),
        bach\<lparr>performances := [(''take2'', [''col'', ''bach'', ''performances'', ''take2''])]\<rparr>,
        bach_started\<lparr>files := bach_disk @ [([''col'', ''bach'', ''performances'', ''take2''], Dir)]\<rparr>)"
    by (simp add: clear_performances_def remove_performance_def rmtree_def
                  piece_defs fs_defs bach_defs take_defs Let_def)
  show ?thesis
    unfolding c using u o by (simp add: fs_defs bach_defs)
qed

text \<open>
  Claim C9, amended. The piece is settled on the files, every entry of the directory of the
  performances is a directory, and every entry is known to the piece (the index is not
  older than the directory). Then \<open>clear_performances\<close> returns without an exception; the
  mapping \<open>performances\<close> is empty afterwards, the directory has no entry left, and no
  performance the piece knew exists any longer. The loop runs over the keys of the mapping
  it started with, whatever \<open>remove_performance\<close> assigns to the attribute meanwhile.
\<close>

theorem clear_performances_empties:
  assumes "settled self (files w)"
    and "only_directories (files w) (performance_dir self)"
    and "set (entries (files w) (performance_dir self)) \<subseteq> fst ` set (performances self)"
  shows "\<exists>self' w'. clear_performances self w = (Inr (), self', w')
           \<and> performances self' = []
           \<and> listdir (files w') (performance_dir self') = Inr []
           \<and> (\<forall>n \<in> fst ` set (performances self).
                 map_of (files w') (join (performance_dir self) n) = None)"
proof -
  let ?pd = "performance_dir self"
  let ?ns = "map fst (performances self)"
  define self' where "self' = fst (snd (clear_loop ?ns self w))"
  define w' where "w' = snd (snd (clear_loop ?ns self w))"
  note post = clear_loop_settled [OF assms(1) assms(2), of ?ns, folded self'_def w'_def]
  have l: "clear_loop ?ns self w = (Inr (), self', w')"
    using post by (simp add: self'_def w'_def prod_eq_iff)
  have pd: "performance_dir self' = ?pd" and i: "isdir (files w') ?pd"
    using post by simp_all
  have "set (entries (files w') ?pd) = set (entries (files w) ?pd) - set ?ns"
    using post by simp
  then have "set (entries (files w') ?pd) = {}"
    using assms(3) by auto
  then have en: "entries (files w') ?pd = []"
    by simp
  have pf: "performances self' = []"
  proof (cases "performances self = []")
    case True
    then show ?thesis using l by simp
  next
    case False
    then show ?thesis using post en by simp
  qed
  have gone: "\<And>n. map_of (files w') (join ?pd n) = None"
  proof -
    fix n
    have "n \<notin> set (entries (files w') ?pd)"
      using en by simp
    then show "map_of (files w') (join ?pd n) = None"
      by (simp add: set_entries join_def)
  qed
  show ?thesis
    using l pd i en pf gone by (simp add: clear_performances_def listdir_def)
qed

theorem clear_performances_empties_witness:
  "settled bach_takes (files (bach_started\<lparr>files := bach_disk_take2\<rparr>))
   \<and> only_directories (files (bach_started\<lparr>files := bach_disk_take2\<rparr>))
        (performance_dir bach_takes)
   \<and> set (entries (files (bach_started\<lparr>files := bach_disk_take2\<rparr>)) (performance_dir bach_takes))
        \<subseteq> fst ` set (performances bach_takes)
   \<and> (\<exists>self' w'. clear_performances bach_takes (bach_started\<lparr>files := bach_disk_take2\<rparr>)
                     = (Inr (), self', w')
         \<and> performances self' = []
         \<and> listdir (files w') (performance_dir self') = Inr []
         \<and> (\<forall>n \<in> fst ` set (performances bach_takes).
               map_of (files w') (join (performance_dir bach_takes) n) = None))"
proof -
  have a: "settled bach_takes (files (bach_started\<lparr>files := bach_disk_take2\<rparr>))"
    by (simp add: settled_def piece_defs fs_defs bach_defs take_defs Let_def)
  have b: "only_directories (files (bach_started\<lparr>files := bach_disk_take2\<rparr>))
             (performance_dir bach_takes)"
    by (simp add: only_directories_def fs_defs bach_defs take_defs)
  have c: "set (entries (files (bach_started\<lparr>files := bach_disk_take2\<rparr>))
                  (performance_dir bach_takes))
             \<subseteq> fst ` set (performances bach_takes)"
    by (simp add: fs_defs bach_defs take_defs)
  show ?thesis
    using clear_performances_empties [OF a b c] a b c by simp
qed

section \<open>Adding a performance\<close>

lemma nothing_below_iff: "nothing_below d fs \<longleftrightarrow> (\<forall>q. prefix d q \<longrightarrow> map_of fs q = None)"
  by (force simp: nothing_below_def map_of_eq_None_iff)

lemma mkdir_succeeds:
  "p \<noteq> [] \<Longrightarrow> map_of fs p = None \<Longrightarrow> isdir fs (butlast p) \<Longrightarrow> mkdir fs p = Inr (fs @ [(p, Dir)])"
  by (simp add: mkdir_def)

lemma copyfile_succeeds:
  "map_of fs src = Some (File c) \<Longrightarrow> src \<noteq> dst \<Longrightarrow> dst \<noteq> [] \<Longrightarrow> \<not> isdir fs dst \<Longrightarrow>
   isdir fs (butlast dst) \<Longrightarrow> copyfile fs src dst = Inr (AList.update dst (File c) fs)"
  by (simp add: copyfile_def)

lemma distinct_paths: "map_of fs a = Some v \<Longrightarrow> map_of fs b = None \<Longrightarrow> a \<noteq> b"
  by auto

lemma join_inject: "join d a = join d b \<longleftrightarrow> a = b"
  by (simp add: join_def)

lemma set_entries_join: "set (entries fs d) = {n. map_of fs (join d n) \<noteq> None}"
  by (simp add: set_entries join_def)

lemma refreshed_twice: "refreshed (refreshed self fs) fs = refreshed self fs"
proof -
  have "collect_encodings (refreshed self fs) fs = collect_encodings self fs"
    by (rule collect_encodings_cong) simp_all
  then show ?thesis
    by (simp add: refreshed_def split: option.splits)
qed

text \<open>
  \<open>load_performance\<close> on a settled piece that has just been updated: the loader decides.
\<close>

lemma load_performance_settled:
  assumes "settled self (files w)"
    and "nm \<in> set (entries (files w) (performance_dir self))"
    and "mk (files w) (join (performance_dir self) nm) (name self) = Inr h"
  shows "load_performance mk nm (refreshed self (files w)) w = (Inr h, refreshed self (files w), w)"
proof -
  have "settled (refreshed self (files w)) (files w)"
    using assms(1) by simp
  then have "update (refreshed self (files w)) w = (Inr (), refreshed self (files w), w)"
    using update_settled [of "refreshed self (files w)" w] by (simp add: refreshed_twice)
  then show ?thesis
    using assms(2,3) by (simp add: load_performance_def map_of_index)
qed

text \<open>
  The part of \<open>add_performance\<close> after the test of the name. \<open>self1\<close> and \<open>w1\<close> are the
  piece and the process state there: the piece is settled, nothing lies at or below the
  new directory, and the source files exist. The new table of files is given entry by
  entry: the copy of the MIDI file is written last.
\<close>

lemma add_performance_core:
  fixes mk :: "filesystem \<Rightarrow> path \<Rightarrow> string \<Rightarrow> error + 'h"
  assumes stage:
      "(if map_of (performances self) nm \<noteq> None
        then (if overwrite
              then remove_performance nm self
                     (w\<lparr>warnings := warnings w @ [OverwritingPerformance (name self) nm]\<rparr>)
              else (Inl (PerformanceExists (name self) nm), self, w))
        else (Inr (), self, w)) = (Inr (), self1, w1)"
    and s1: "settled self1 (files w1)"
    and free: "\<And>q. prefix (join (performance_dir self1) nm) q \<Longrightarrow> map_of (files w1) q = None"
    and a: "isfile (files w1) audio"
    and m: "\<And>p. midi = Some p \<Longrightarrow> isfile (files w1) p"
    and mk: "\<And>fs. isdir fs (join (performance_dir self1) nm) \<Longrightarrow>
                 isfile fs (join (join (performance_dir self1) nm) (nm @ path_ext audio)) \<Longrightarrow>
                 \<exists>h. mk fs (join (performance_dir self1) nm) (name self1) = Inr h"
  shows "fst (add_performance mk nm audio midi overwrite self w) = Inr ()"
    and "fst (snd (add_performance mk nm audio midi overwrite self w)) =
           refreshed self1 (files (snd (snd (add_performance mk nm audio midi overwrite self w))))"
    and "settled self1 (files (snd (snd (add_performance mk nm audio midi overwrite self w))))"
    and "map_of (files (snd (snd (add_performance mk nm audio midi overwrite self w)))) q =
           (if midi \<noteq> None \<and> q = join (join (performance_dir self1) nm) (nm @ path_ext (the midi))
            then map_of (files w1) (the midi)
            else if q = join (join (performance_dir self1) nm) (nm @ path_ext audio)
            then map_of (files w1) audio
            else if q = join (performance_dir self1) nm then Some Dir
            else map_of (files w1) q)"
    and "set (entries (files (snd (snd (add_performance mk nm audio midi overwrite self w))))
                (join (performance_dir self1) nm)) =
           insert (nm @ path_ext audio) (case midi of None \<Rightarrow> {} | Some p \<Rightarrow> {nm @ path_ext p})"
    and "map_of (performances (fst (snd (add_performance mk nm audio midi overwrite self w)))) nm =
           Some (join (performance_dir self1) nm)"
    and "\<exists>h. load_performance mk nm
                (fst (snd (add_performance mk nm audio midi overwrite self w)))
                (snd (snd (add_performance mk nm audio midi overwrite self w))) =
              (Inr h, fst (snd (add_performance mk nm audio midi overwrite self w)),
               snd (snd (add_performance mk nm audio midi overwrite self w)))"
proof -
  let ?pd = "performance_dir self1"
  let ?npd = "join ?pd nm"
  let ?da = "join ?npd (nm @ path_ext audio)"
  obtain ca where ca: "map_of (files w1) audio = Some (File ca)"
    using a by (auto simp: isfile_def split: option.splits node.splits)
  define fs2 where "fs2 = files w1 @ [(?npd, Dir)]"
  define fs3 where "fs3 = AList.update ?da (File ca) fs2"
  define fs4 where "fs4 = (case midi of None \<Rightarrow> fs3
                           | Some p \<Rightarrow> AList.update (join ?npd (nm @ path_ext p))
                                        (the (map_of (files w1) p)) fs3)"
  have n0: "map_of (files w1) ?npd = None"
    by (rule free) simp
  have nb: "\<And>x. map_of (files w1) (join ?npd x) = None"
    by (rule free) (simp add: join_def)
  have ne: "\<And>x. join ?npd x \<noteq> ?npd" "?npd \<noteq> []" "\<And>x. join ?npd x \<noteq> []"
    by (simp_all add: join_def)
  have bl: "butlast ?npd = ?pd" "\<And>x. butlast (join ?npd x) = ?npd"
    by (simp_all add: join_def butlast_append)
  have ipd: "isdir (files w1) ?pd"
    using s1 by (auto simp: settled_def)
  have mk1: "mkdir (files w1) ?npd = Inr fs2"
    unfolding fs2_def using ne(2) n0 ipd by (intro mkdir_succeeds) (simp_all add: bl)
  have m2: "\<And>q. map_of fs2 q = (if q = ?npd then Some Dir else map_of (files w1) q)"
    using n0 by (auto simp: fs2_def map_add_def split: option.splits)
  have cp1: "copyfile fs2 audio ?da = Inr fs3"
    unfolding fs3_def
  proof (rule copyfile_succeeds)
    show "map_of fs2 audio = Some (File ca)"
      using ca n0 by (auto simp: m2)
    show "audio \<noteq> ?da"
      by (rule distinct_paths [OF ca nb])
    show "?da \<noteq> []"
      by (rule ne)
    show "\<not> isdir fs2 ?da"
      by (simp add: isdir_def m2 ne nb)
    show "isdir fs2 (butlast ?da)"
      by (simp add: isdir_def m2 bl)
  qed
  have m3: "\<And>q. map_of fs3 q = (if q = ?da then Some (File ca) else map_of fs2 q)"
    by (simp add: fs3_def update_conv')
  have cp2: "copyfile fs3 p (join ?npd (nm @ path_ext p)) = Inr fs4" if p: "midi = Some p" for p
  proof -
    obtain cm where cm: "map_of (files w1) p = Some (File cm)"
      using m [OF p] by (auto simp: isfile_def split: option.splits node.splits)
    have f4: "fs4 = AList.update (join ?npd (nm @ path_ext p)) (File cm) fs3"
      by (simp add: fs4_def p cm)
    show ?thesis
      unfolding f4
    proof (rule copyfile_succeeds)
      show "map_of fs3 p = Some (File cm)"
        using cm n0 nb [of "nm @ path_ext audio"] by (auto simp: m3 m2)
      show "p \<noteq> join ?npd (nm @ path_ext p)"
        by (rule distinct_paths [OF cm nb])
      show "join ?npd (nm @ path_ext p) \<noteq> []"
        by (rule ne)
      show "\<not> isdir fs3 (join ?npd (nm @ path_ext p))"
        by (simp add: isdir_def m3 m2 ne nb)
      show "isdir fs3 (butlast (join ?npd (nm @ path_ext p)))"
        by (simp add: isdir_def m3 m2 bl ne [symmetric])
    qed
  qed
  have m4: "\<And>q. map_of fs4 q =
           (if midi \<noteq> None \<and> q = join ?npd (nm @ path_ext (the midi))
            then map_of (files w1) (the midi)
            else if q = ?da then map_of (files w1) audio
            else if q = ?npd then Some Dir
            else map_of (files w1) q)"
  proof (cases midi)
    case None
    then show "\<And>q. ?thesis q"
      by (simp add: fs4_def m3 m2 ca)
  next
    case (Some p)
    obtain cm where cm: "map_of (files w1) p = Some (File cm)"
      using m [OF Some] by (auto simp: isfile_def split: option.splits node.splits)
    show "\<And>q. ?thesis q"
      by (simp add: fs4_def Some cm update_conv' m3 m2 ca)
  qed
  have agree: "\<And>q. \<not> prefix ?npd q \<Longrightarrow> map_of fs4 q = map_of (files w1) q"
    by (auto simp: m4 join_def)
  have s4: "settled self1 fs4"
    using s1 agree by (rule settled_agree)
  have u4: "update self1 (w1\<lparr>files := fs4\<rparr>) = (Inr (), refreshed self1 fs4, w1\<lparr>files := fs4\<rparr>)"
    using update_settled [of self1 "w1\<lparr>files := fs4\<rparr>"] s4 by simp
  have d4: "map_of fs4 ?npd = Some Dir"
    by (simp add: m4 ne [symmetric])
  then have e4: "nm \<in> set (entries fs4 ?pd)"
    by (simp add: set_entries join_def)
  have i4: "isdir fs4 ?npd"
    using d4 by (simp add: isdir_def)
  have k: "map_of fs4 (join ?npd n) \<noteq> None \<longleftrightarrow>
             n = nm @ path_ext audio \<or> (midi \<noteq> None \<and> n = nm @ path_ext (the midi))" for n
  proof (cases midi)
    case None
    then show ?thesis
      by (simp add: m4 ca nb ne join_inject)
  next
    case (Some p)
    obtain cm where cm: "map_of (files w1) p = Some (File cm)"
      using m [OF Some] by (auto simp: isfile_def split: option.splits node.splits)
    show ?thesis
      using Some by (auto simp: m4 ca cm nb ne join_inject)
  qed
  have en: "set (entries fs4 ?npd) =
              insert (nm @ path_ext audio) (case midi of None \<Rightarrow> {} | Some p \<Rightarrow> {nm @ path_ext p})"
    unfolding set_entries_join k by (auto split: option.splits)
  have "isfile fs4 ?da"
  proof (cases "midi \<noteq> None \<and> ?da = join ?npd (nm @ path_ext (the midi))")
    case True
    then obtain p where p: "midi = Some p"
      by auto
    then have "isfile (files w1) p"
      by (rule m)
    then show ?thesis
      using True p by (simp add: isfile_def m4)
  next
    case False
    then show ?thesis
      using ca by (auto simp: isfile_def m4)
  qed
  with i4 obtain h where h: "mk fs4 ?npd (name self1) = Inr h"
    using mk by blast
  have lp: "load_performance mk nm (refreshed self1 fs4) (w1\<lparr>files := fs4\<rparr>) =
              (Inr h, refreshed self1 fs4, w1\<lparr>files := fs4\<rparr>)"
    using load_performance_settled [of self1 "w1\<lparr>files := fs4\<rparr>" nm mk h] s4 e4 h by simp
  have r: "add_performance mk nm audio midi overwrite self w =
             (Inr (), refreshed self1 fs4, w1\<lparr>files := fs4\<rparr>)"
  proof (cases midi)
    case None
    then have "copyfile fs2 audio ?da = Inr fs4"
      using cp1 by (simp add: fs4_def)
    then show ?thesis
      unfolding add_performance_def stage using None
      by (simp add: Let_def mk1 u4 lp)
  next
    case (Some p)
    show ?thesis
      unfolding add_performance_def stage using Some
      by (simp add: Let_def mk1 cp1 cp2 [OF Some] u4 lp)
  qed
  show "fst (add_performance mk nm audio midi overwrite self w) = Inr ()"
    by (simp add: r)
  show "fst (snd (add_performance mk nm audio midi overwrite self w)) =
          refreshed self1 (files (snd (snd (add_performance mk nm audio midi overwrite self w))))"
    by (simp add: r)
  show "settled self1 (files (snd (snd (add_performance mk nm audio midi overwrite self w))))"
    by (simp add: r s4)
  show "map_of (files (snd (snd (add_performance mk nm audio midi overwrite self w)))) q =
           (if midi \<noteq> None \<and> q = join ?npd (nm @ path_ext (the midi))
            then map_of (files w1) (the midi)
            else if q = ?da then map_of (files w1) audio
            else if q = ?npd then Some Dir
            else map_of (files w1) q)"
    unfolding r using m4 [of q] by simp
  show "set (entries (files (snd (snd (add_performance mk nm audio midi overwrite self w)))) ?npd) =
          insert (nm @ path_ext audio) (case midi of None \<Rightarrow> {} | Some p \<Rightarrow> {nm @ path_ext p})"
    unfolding r using en by simp
  show "map_of (performances (fst (snd (add_performance mk nm audio midi overwrite self w)))) nm =
          Some ?npd"
    unfolding r using e4 by (simp add: map_of_index)
  show "\<exists>h. load_performance mk nm
                (fst (snd (add_performance mk nm audio midi overwrite self w)))
                (snd (snd (add_performance mk nm audio midi overwrite self w))) =
              (Inr h, fst (snd (add_performance mk nm audio midi overwrite self w)),
               snd (snd (add_performance mk nm audio midi overwrite self w)))"
    unfolding r using lp by auto
qed

text \<open>
  Claim C7, as stated, fails when the audio file and the MIDI file have the same extension:
  both copies get the same name, the second is written over the first, and the directory
  holds one file, with the MIDI data. Here neither source has an extension.
\<close>

theorem add_performance_same_extension_counterexample:
  "isfile bach_disk_plain [''tmp'', ''rec''] \<and> isfile bach_disk_plain [''tmp'', ''notes'']
   \<and> map_of (performances bach) ''take1'' = None
   \<and> fst (add_performance accept_directory ''take1'' [''tmp'', ''rec'']
             (Some [''tmp'', ''notes'']) False bach (bach_started\<lparr>files := bach_disk_plain\<rparr>))
       = Inr ()
   \<and> listdir
        (files (snd (snd (add_performance accept_directory ''take1'' [''tmp'', ''rec'']
             (Some [''tmp'', ''notes'']) False bach (bach_started\<lparr>files := bach_disk_plain\<rparr>)))))
        [''col'', ''bach'', ''performances'', ''take1'']
       = Inr [''take1'']
   \<and> map_of
        (files (snd (snd (add_performance accept_directory ''take1'' [''tmp'', ''rec'']
             (Some [''tmp'', ''notes'']) False bach (bach_started\<lparr>files := bach_disk_plain\<rparr>)))))
        [''col'', ''bach'', ''performances'', ''take1'', ''take1'']
       = Some (File ''played midi'')"
proof -
  have r: "add_performance accept_directory ''take1'' [''tmp'', ''rec'']
             (Some [''tmp'', ''notes'']) False bach (bach_started\<lparr>files := bach_disk_plain\<rparr>)
           = (Inr (), bach_take1,
              bach_started\<lparr>files := bach_disk_plain
                 @ [([''col'', ''bach'', ''performances'', ''take1''], Dir),
                    ([''col'', ''bach'', ''performances'', ''take1'', ''take1''],
                     File ''played midi'')]\<rparr>)"
    by (simp add: add_performance_def load_performance_def accept_directory_def copyfile_def
                  path_ext_def splitext_ext_def piece_defs fs_defs bach_defs take_defs
                  bach_disk_plain_def Let_def)
  show ?thesis
    unfolding r by (simp add: fs_defs bach_defs bach_disk_plain_def)
qed

text \<open>
  Claim C7, amended. The piece is settled on the files, the name is a file name that is no
  key of \<open>performances\<close> and names nothing in the directory of the performances, the audio
  file and the MIDI file, when given, are regular files with different extensions, and the
  loader accepts a directory that holds a file named by the name and the audio extension.
  Then \<open>add_performance\<close> returns without an exception, \<open>load_performance\<close> of the name
  succeeds after it, the new directory is the entry of the name in \<open>performances\<close>, and its
  entries are exactly the copy of the audio file and, when given, the copy of the MIDI
  file, each named by the name and the extension of its source.
\<close>

theorem add_performance_round_trip:
  fixes mk :: "filesystem \<Rightarrow> path \<Rightarrow> string \<Rightarrow> error + 'h"
  assumes "settled self (files w)"
    and "is_component nm"
    and "map_of (performances self) nm = None"
    and "nothing_below (join (performance_dir self) nm) (files w)"
    and "isfile (files w) audio"
    and "\<And>p. midi = Some p \<Longrightarrow> isfile (files w) p \<and> path_ext p \<noteq> path_ext audio"
    and "\<And>fs. isdir fs (join (performance_dir self) nm) \<Longrightarrow>
              isfile fs (join (join (performance_dir self) nm) (nm @ path_ext audio)) \<Longrightarrow>
              \<exists>h. mk fs (join (performance_dir self) nm) (name self) = Inr h"
  shows "\<exists>self' w' h.
           add_performance mk nm audio midi overwrite self w = (Inr (), self', w')
         \<and> load_performance mk nm self' w' = (Inr h, self', w')
         \<and> map_of (performances self') nm = Some (join (performance_dir self) nm)
         \<and> isdir (files w') (join (performance_dir self) nm)
         \<and> set (entries (files w') (join (performance_dir self) nm)) =
             insert (nm @ path_ext audio) (case midi of None \<Rightarrow> {} | Some p \<Rightarrow> {nm @ path_ext p})
         \<and> map_of (files w') (join (join (performance_dir self) nm) (nm @ path_ext audio)) =
             map_of (files w) audio
         \<and> (\<forall>p. midi = Some p \<longrightarrow>
               map_of (files w') (join (join (performance_dir self) nm) (nm @ path_ext p)) =
               map_of (files w) p)"
proof -
  let ?npd = "join (performance_dir self) nm"
  define self' where "self' = fst (snd (add_performance mk nm audio midi overwrite self w))"
  define w' where "w' = snd (snd (add_performance mk nm audio midi overwrite self w))"
  have stage:
      "(if map_of (performances self) nm \<noteq> None
        then (if overwrite
              then remove_performance nm self
                     (w\<lparr>warnings := warnings w @ [OverwritingPerformance (name self) nm]\<rparr>)
              else (Inl (PerformanceExists (name self) nm), self, w))
        else (Inr (), self, w)) = (Inr (), self, w)"
    using assms(3) by simp
  have free: "\<And>q. prefix ?npd q \<Longrightarrow> map_of (files w) q = None"
    using assms(4) by (simp add: nothing_below_iff)
  have m: "\<And>p. midi = Some p \<Longrightarrow> isfile (files w) p"
    using assms(6) by simp
  note core = add_performance_core [of self nm overwrite w self w audio midi mk,
      OF stage assms(1) free assms(5) m assms(7), folded self'_def w'_def]
  have r: "add_performance mk nm audio midi overwrite self w = (Inr (), self', w')"
    using core(1) by (simp add: self'_def w'_def prod_eq_iff)
  obtain h where lp: "load_performance mk nm self' w' = (Inr h, self', w')"
    using core(7) by blast
  have d: "map_of (files w') ?npd = Some Dir"
    using core(4) [of ?npd] by (simp add: join_def)
  have a: "map_of (files w') (join ?npd (nm @ path_ext audio)) = map_of (files w) audio"
    using assms(6) by (auto simp: core(4) join_inject)
  have b: "map_of (files w') (join ?npd (nm @ path_ext p)) = map_of (files w) p"
    if "midi = Some p" for p
    using that core(4) [of "join ?npd (nm @ path_ext p)"] by simp
  show ?thesis
    using r lp core(5) core(6) d a b by (simp add: isdir_def)
qed

theorem add_performance_round_trip_witness:
  "settled bach (files bach_started)
   \<and> is_component ''take1''
   \<and> map_of (performances bach) ''take1'' = None
   \<and> nothing_below (join (performance_dir bach) ''take1'') (files bach_started)
   \<and> isfile (files bach_started) [''tmp'', ''rec.wav'']
   \<and> isfile (files bach_started) [''tmp'', ''rec.mid'']
   \<and> path_ext [''tmp'', ''rec.mid''] \<noteq> path_ext [''tmp'', ''rec.wav'']
   \<and> (\<exists>self' w' h.
         add_performance accept_directory ''take1'' [''tmp'', ''rec.wav'']
           (Some [''tmp'', ''rec.mid'']) False bach bach_started = (Inr (), self', w')
       \<and> load_performance accept_directory ''take1'' self' w' = (Inr h, self', w')
       \<and> map_of (performances self') ''take1'' = Some (join (performance_dir bach) ''take1'')
       \<and> isdir (files w') (join (performance_dir bach) ''take1'')
       \<and> set (entries (files w') (join (performance_dir bach) ''take1'')) =
           {''take1'' @ path_ext [''tmp'', ''rec.wav''], ''take1'' @ path_ext [''tmp'', ''rec.mid'']}
       \<and> map_of (files w') (join (join (performance_dir bach) ''take1'')
                               (''take1'' @ path_ext [''tmp'', ''rec.wav''])) =
           map_of (files bach_started) [''tmp'', ''rec.wav'']
       \<and> map_of (files w') (join (join (performance_dir bach) ''take1'')
                               (''take1'' @ path_ext [''tmp'', ''rec.mid''])) =
           map_of (files bach_started) [''tmp'', ''rec.mid''])"
proof -
  have a: "settled bach (files bach_started)"
    by (simp add: settled_def piece_defs fs_defs bach_defs Let_def)
  have b: "is_component ''take1''"
    by (simp add: is_component_def)
  have c: "map_of (performances bach) ''take1'' = None"
    by (simp add: bach_def)
  have d: "nothing_below (join (performance_dir bach) ''take1'') (files bach_started)"
    by (simp add: nothing_below_def fs_defs bach_defs)
  have e: "isfile (files bach_started) [''tmp'', ''rec.wav'']"
    by (simp add: fs_defs bach_defs)
  have f: "isfile (files bach_started) [''tmp'', ''rec.mid'']"
    by (simp add: fs_defs bach_defs)
  have g: "path_ext [''tmp'', ''rec.mid''] \<noteq> path_ext [''tmp'', ''rec.wav'']"
    by (simp add: path_ext_def splitext_ext_def)
  have m: "isfile (files bach_started) p \<and> path_ext p \<noteq> path_ext [''tmp'', ''rec.wav'']"
    if "Some [''tmp'', ''rec.mid''] = Some p" for p
    using that f g by auto
  have k: "\<exists>h. accept_directory fs (join (performance_dir bach) ''take1'') (name bach) = Inr h"
    if "isdir fs (join (performance_dir bach) ''take1'')" for fs
    using that by (simp add: accept_directory_def)
  show ?thesis
    using add_performance_round_trip [of bach bach_started "''take1''" "[''tmp'', ''rec.wav'']"
        "Some [''tmp'', ''rec.mid'']" accept_directory False, OF a b c d e m k] a b c d e f g
    by simp
qed

section \<open>Adding a performance under a name that is taken\<close>





end
